theory Spec2Isabelle
  imports Main "HOL-Library.AList"
begin

section \<open>Values, the configuration dictionary and the rc file\<close>

text \<open>
  The program keeps everything in one Python dictionary \<open>cfg\<close> from option name to
  value.  A value is \<open>None\<close>, a flag, a number, a string, a list (or tuple), a set
  of strings (the job set built by \<open>load_config\<close>, kept as the list of its members
  in insertion order, without repetition), a dictionary, or a handle to an object
  (\<open>VParser\<close>: the ConfigParser stored under \<open>_parser\<close>; \<open>VTestcases\<close>: the list
  stored under \<open>_testcases\<close>; \<open>VFunc\<close>: the command function stored under \<open>func\<close>).
\<close>

datatype val =
    VNone
  | VBool bool
  | VInt int
  | VStr string
  | VList "val list"
  | VSet "string list"
  | VDict "(string \<times> val) list"
  | VParser
  | VTestcases
  | VFunc string

type_synonym cfg = "string \<rightharpoonup> val"

text \<open>Python truthiness, as used by \<open>if x\<close> and \<open>not x\<close>.\<close>

fun truthy :: "val \<Rightarrow> bool" where
  "truthy VNone = False"
| "truthy (VBool b) = b"
| "truthy (VInt i) = (i \<noteq> 0)"
| "truthy (VStr s) = (s \<noteq> [])"
| "truthy (VList xs) = (xs \<noteq> [])"
| "truthy (VSet S) = (S \<noteq> [])"
| "truthy (VDict d) = (d \<noteq> [])"
| "truthy VParser = True"
| "truthy VTestcases = True"
| "truthy (VFunc f) = True"

text \<open>\<open>cfg.get(name)\<close>: the value, or \<open>None\<close> for a missing key.\<close>

definition pyget :: "cfg \<Rightarrow> string \<Rightarrow> val" where
  "pyget c k = (case c k of None \<Rightarrow> VNone | Some v \<Rightarrow> v)"

text \<open>
  The ConfigParser object: sections in file order, each an ordered list of options.
  Option names are taken as already normalised (the parser lower-cases them; every
  name the stages write is lower-case).  Values read from the file are strings;
  \<open>config.set\<close> stores any value.
\<close>

type_synonym options = "(string \<times> val) list"
type_synonym ini = "(string \<times> options) list"

definition has_section :: "ini \<Rightarrow> string \<Rightarrow> bool" where
  "has_section p s = (map_of p s \<noteq> None)"

definition add_section :: "ini \<Rightarrow> string \<Rightarrow> ini" where
  "add_section p s = p @ [(s, [])]"

definition remove_section :: "ini \<Rightarrow> string \<Rightarrow> ini" where
  "remove_section p s = AList.delete s p"

definition ini_set :: "ini \<Rightarrow> string \<Rightarrow> string \<Rightarrow> val \<Rightarrow> ini" where
  "ini_set p s k v = AList.map_entry s (AList.update k v) p"

definition ini_get :: "ini \<Rightarrow> string \<Rightarrow> string \<Rightarrow> val option" where
  "ini_get p s k = (case map_of p s of None \<Rightarrow> None | Some sec \<Rightarrow> map_of sec k)"

text \<open>
  A JUnit test case: name, class name, elapsed seconds, the standard-output payload
  (\<open>json.dumps(cfg, default=str)\<close>, kept here as the dictionary it serialises) and
  the failure message, if any.
\<close>

record testcase =
  tc_name :: string
  tc_classname :: string
  tc_elapsed :: int
  tc_stdout :: cfg
  tc_failure :: "string option"

text \<open>Files: an rc file written by \<open>config.write\<close>, plain text, or a JUnit suite.\<close>

datatype fcontent = IniFile ini | TextFile string | JunitFile "testcase list"

text \<open>Instances of Python's \<open>Exception\<close>: class name and message.\<close>

datatype exn = Exn (exn_class: string) (exn_msg: string)


section \<open>Strings\<close>

text \<open>Decimal numerals, as \<open>'%d' % n\<close> and \<open>'%s' % n\<close> print an integer.\<close>

definition digit_char :: "nat \<Rightarrow> char" where
  "digit_char d = ''0123456789'' ! d"

function str_nat :: "nat \<Rightarrow> string" where
  "str_nat n = (if n < 10 then [digit_char n] else str_nat (n div 10) @ [digit_char (n mod 10)])"
  by pat_completeness auto
termination
  by (relation "measure id") auto

declare str_nat.simps [simp del]

definition str_int :: "int \<Rightarrow> string" where
  "str_int i = (if i < 0 then CHR ''-'' # str_nat (nat (- i)) else str_nat (nat i))"

text \<open>\<open>'%02d' % idx\<close>: at least two digits, padded with a zero.\<close>

definition fmt_02d :: "nat \<Rightarrow> string" where
  "fmt_02d n = (if n < 10 then CHR ''0'' # str_nat n else str_nat n)"

text \<open>The number a string of digits denotes (used to tell indexed keys apart).\<close>

definition digit_val :: "char \<Rightarrow> nat" where
  "digit_val c = (case map_of (zip ''0123456789'' [0, 1, 2, 3, 4, 5, 6, 7, 8, 9]) c of
                    Some d \<Rightarrow> d | None \<Rightarrow> 0)"

definition digits_val :: "string \<Rightarrow> nat" where
  "digits_val s = foldl (\<lambda>a c. 10 * a + digit_val c) 0 s"

text \<open>\<open>s.startswith(p)\<close>.\<close>

definition startswith :: "string \<Rightarrow> string \<Rightarrow> bool" where
  "startswith s p = (take (length p) s = p)"

text \<open>
  \<open>str.title()\<close> on ASCII text: the first letter of every run of letters in upper
  case, the other letters in lower case.
\<close>

definition lower_letters :: string where
  "lower_letters = ''abcdefghijklmnopqrstuvwxyz''"

definition upper_letters :: string where
  "upper_letters = ''ABCDEFGHIJKLMNOPQRSTUVWXYZ''"

definition to_upper :: "char \<Rightarrow> char" where
  "to_upper c = (case map_of (zip lower_letters upper_letters) c of Some u \<Rightarrow> u | None \<Rightarrow> c)"

definition to_lower :: "char \<Rightarrow> char" where
  "to_lower c = (case map_of (zip upper_letters lower_letters) c of Some l \<Rightarrow> l | None \<Rightarrow> c)"

definition is_letter :: "char \<Rightarrow> bool" where
  "is_letter c = (c \<in> set lower_letters \<or> c \<in> set upper_letters)"

fun title_from :: "bool \<Rightarrow> string \<Rightarrow> string" where
  "title_from prev [] = []"
| "title_from prev (c # cs) =
     (if is_letter c then (if prev then to_lower c else to_upper c) # title_from True cs
      else c # title_from False cs)"

definition title :: "string \<Rightarrow> string" where
  "title s = title_from False s"

text \<open>\<open>os.path.dirname\<close>, \<open>os.path.basename\<close> and \<open>os.path.join\<close> of posixpath.\<close>

definition basename :: "string \<Rightarrow> string" where
  "basename p = rev (takeWhile (\<lambda>c. c \<noteq> CHR ''/'') (rev p))"

definition dirname :: "string \<Rightarrow> string" where
  "dirname p =
     (let h = rev (dropWhile (\<lambda>c. c \<noteq> CHR ''/'') (rev p)) in
      if h \<noteq> [] \<and> \<not> list_all (\<lambda>c. c = CHR ''/'') h
      then rev (dropWhile (\<lambda>c. c = CHR ''/'') (rev h)) else h)"

definition path_join :: "string \<Rightarrow> string \<Rightarrow> string" where
  "path_join a b =
     (if startswith b ''/'' then b
      else if a = [] \<or> last a = CHR ''/'' then a @ b
      else a @ ''/'' @ b)"

section \<open>Collaborators\<close>

text \<open>
  Everything outside \<open>executable.py\<close> (the kernel tree, the builder, publishers,
  runners, reporters, the clock, the file tree operations of \<open>shutil\<close>) is a
  collaborator.  Each call is logged in the world's trace; what a call answers is
  given by an oracle that sees the whole trace up to and including the call, so a
  collaborator may keep any state of its own.  Runner objects are numbered in the
  order \<open>cmd_run\<close> creates them: 0 is \<open>runner\<close>, 1 is \<open>baserunner\<close>.  The arguments
  of \<open>Runner_run\<close> are the build URL, the release, the wait flag, and the keywords
  \<open>uid\<close>, \<open>arch\<close>, \<open>host\<close> and \<open>reschedule\<close> (\<open>None\<close> when the call does not pass
  the keyword).
\<close>

datatype call =
    KernelTree_new val val val val
  | Ktree_mergelog
  | Ktree_checkout
  | Ktree_get_commit_date val
  | Ktree_merge_git_ref "val list"
  | Ktree_merge_patch_file val
  | Ktree_merge_patchwork_patch val
  | Ktree_getpath
  | Ktree_dumpinfo
  | Ktree_get_commit_hash
  | Os_path_abspath val
  | Strftime_now
  | KernelBuilder_new "val list"
  | Builder_clean_kernel_source
  | Builder_mktgz
  | Builder_buildlog
  | Builder_get_cfgpath
  | Builder_getrelease
  | Builder_build_arch
  | Shutil_move val val
  | Shutil_copyfile val val
  | Shutil_rmtree val
  | Getpublisher "val list"
  | Publisher_publish val
  | Publisher_geturl string
  | Getrunner nat "val list"
  | Runner_run nat val val val "val option" "val option" "val option" "bool option"
  | Runner_jobs nat
  | Runner_dumpjunitresults nat val val
  | Runner_get_mfhost nat
  | Reporter_getattr string
  | Reporter_new
  | Reporter_report
  | Time_time

type_synonym history = "call list"

text \<open>
  The oracles: \<open>ext_unit\<close> answers calls whose result is not used, \<open>ext_val\<close> calls
  that return a value, \<open>ext_code\<close> calls that return a result code (for
  \<open>merge_git_ref\<close>, the first component of the pair it returns), \<open>ext_attr\<close> and
  \<open>ext_jobs\<close> attribute reads, \<open>ext_time\<close> the clock (in ticks), \<open>ext_found\<close>
  whether \<open>skt.reporter\<close> has a class of the name asked for.  The remaining fields
  are library functions the model does not spell out: \<open>str\<close> of a container or
  object, \<open>os.path.abspath\<close>, \<open>os.path.expanduser\<close>, \<open>tempfile.mkdtemp\<close> and
  \<open>ast.literal_eval\<close>.
\<close>

record env =
  ext_unit :: "history \<Rightarrow> exn option"
  ext_val :: "history \<Rightarrow> exn + val"
  ext_code :: "history \<Rightarrow> exn + int"
  ext_attr :: "history \<Rightarrow> val"
  ext_jobs :: "history \<Rightarrow> val list"
  ext_time :: "history \<Rightarrow> int"
  ext_found :: "history \<Rightarrow> bool"
  ext_repr :: "val \<Rightarrow> string"
  ext_abspath :: "string \<Rightarrow> string"
  ext_expanduser :: "string \<Rightarrow> string"
  ext_mkdtemp :: string
  ext_literal_eval :: "string \<Rightarrow> exn + val"

section \<open>Python operations on values\<close>

text \<open>\<open>'%s' % v\<close> and \<open>str(v)\<close>.\<close>

definition pystr :: "env \<Rightarrow> val \<Rightarrow> string" where
  "pystr E v =
     (case v of
        VNone \<Rightarrow> ''None''
      | VBool b \<Rightarrow> (if b then ''True'' else ''False'')
      | VInt i \<Rightarrow> str_int i
      | VStr s \<Rightarrow> s
      | _ \<Rightarrow> ext_repr E v)"

text \<open>
  \<open>a == b\<close>: numbers and flags compare by value (\<open>False == 0\<close>), everything else
  structurally.
\<close>

definition num_of :: "val \<Rightarrow> int option" where
  "num_of v = (case v of VInt i \<Rightarrow> Some i | VBool b \<Rightarrow> Some (if b then 1 else 0) | _ \<Rightarrow> None)"

definition py_eq :: "val \<Rightarrow> val \<Rightarrow> bool" where
  "py_eq a b = (case (num_of a, num_of b) of (Some i, Some j) \<Rightarrow> i = j | _ \<Rightarrow> a = b)"

text \<open>Iterating a value, as \<open>for x in v\<close> and \<open>f(*v)\<close> do.\<close>

definition py_iter :: "val \<Rightarrow> exn + val list" where
  "py_iter v =
     (case v of
        VList xs \<Rightarrow> Inr xs
      | VStr s \<Rightarrow> Inr (map (\<lambda>c. VStr [c]) s)
      | VSet xs \<Rightarrow> Inr (map VStr xs)
      | VDict d \<Rightarrow> Inr (map (\<lambda>kv. VStr (fst kv)) d)
      | _ \<Rightarrow> Inl (Exn ''TypeError'' ''object is not iterable''))"

text \<open>\<open>v[0]\<close>.\<close>

definition py_item0 :: "val \<Rightarrow> exn + val" where
  "py_item0 v =
     (case v of
        VList xs \<Rightarrow> (case xs of [] \<Rightarrow> Inl (Exn ''IndexError'' ''list index out of range'')
                              | x # _ \<Rightarrow> Inr x)
      | VStr s \<Rightarrow> (case s of [] \<Rightarrow> Inl (Exn ''IndexError'' ''string index out of range'')
                            | c # _ \<Rightarrow> Inr (VStr [c]))
      | VDict d \<Rightarrow> Inl (Exn ''KeyError'' ''0'')
      | _ \<Rightarrow> Inl (Exn ''TypeError'' ''object is not subscriptable''))"

text \<open>\<open>addtstamp(path, tstamp)\<close>; a path that is not a string has no \<open>rfind\<close>.\<close>

definition addtstamp :: "val \<Rightarrow> string \<Rightarrow> exn + val" where
  "addtstamp path tstamp =
     (case path of
        VStr p \<Rightarrow> Inr (VStr (path_join (dirname p) (tstamp @ ''-'' @ basename p)))
      | _ \<Rightarrow> Inl (Exn ''AttributeError'' ''rfind''))"

text \<open>\<open>full_path(path)\<close>.\<close>

definition full_path :: "env \<Rightarrow> val \<Rightarrow> exn + val" where
  "full_path E path =
     (case path of
        VStr p \<Rightarrow> Inr (VStr (ext_abspath E (ext_expanduser E p)))
      | _ \<Rightarrow> Inl (Exn ''AttributeError'' ''startswith''))"

section \<open>The world and its actions\<close>

text \<open>
  The mutable state of one process: the dictionary, the parser object bound to
  \<open>cfg['_parser']\<close>, the files written, the global \<open>retcode\<close>, the list object
  bound to \<open>cfg['_testcases']\<close>, and the trace of collaborator calls.
\<close>

record world =
  cfg :: cfg
  parser :: ini
  files :: "string \<rightharpoonup> fcontent"
  retcode :: int
  testcases :: "testcase list"
  trace :: history

text \<open>
  An action runs on the world and either returns a value or stops with an error; in
  both cases the world keeps the changes made so far, as a Python exception leaves
  mutated objects as they are.
\<close>

type_synonym ('e, 'a) action = "world \<Rightarrow> ('e + 'a) \<times> world"
type_synonym 'a act = "(exn, 'a) action"

definition ret :: "'a \<Rightarrow> ('e, 'a) action" where
  "ret a w = (Inr a, w)"

definition raise :: "'e \<Rightarrow> ('e, 'a) action" where
  "raise e w = (Inl e, w)"

definition bind :: "('e, 'a) action \<Rightarrow> ('a \<Rightarrow> ('e, 'b) action) \<Rightarrow> ('e, 'b) action" where
  "bind m f w = (case m w of (Inl e, w') \<Rightarrow> (Inl e, w') | (Inr a, w') \<Rightarrow> f a w')"

definition seq :: "('e, unit) action \<Rightarrow> ('e, 'b) action \<Rightarrow> ('e, 'b) action" where
  "seq m n = bind m (\<lambda>_. n)"

definition lift :: "'e + 'a \<Rightarrow> ('e, 'a) action" where
  "lift r w = (r, w)"

text \<open>\<open>try: m except Exception as e: h e\<close>.\<close>

definition try_except :: "'a act \<Rightarrow> (exn \<Rightarrow> 'a act) \<Rightarrow> 'a act" where
  "try_except m h w = (case m w of (Inl e, w') \<Rightarrow> h e w' | (Inr a, w') \<Rightarrow> (Inr a, w'))"

text \<open>\<open>if c: m\<close>.\<close>

definition when_act :: "bool \<Rightarrow> ('e, unit) action \<Rightarrow> ('e, unit) action" where
  "when_act c m = (if c then m else ret ())"

text \<open>\<open>cfg.get(name)\<close> on the current dictionary.\<close>

definition get :: "string \<Rightarrow> ('e, val) action" where
  "get k w = (Inr (pyget (cfg w) k), w)"

text \<open>Collaborator calls: log the call, ask the oracle.\<close>

definition call_unit :: "env \<Rightarrow> call \<Rightarrow> unit act" where
  "call_unit E c w =
     (let h = trace w @ [c] in
      (case ext_unit E h of None \<Rightarrow> Inr () | Some e \<Rightarrow> Inl e, w\<lparr>trace := h\<rparr>))"

definition call_val :: "env \<Rightarrow> call \<Rightarrow> val act" where
  "call_val E c w = (let h = trace w @ [c] in (ext_val E h, w\<lparr>trace := h\<rparr>))"

definition call_code :: "env \<Rightarrow> call \<Rightarrow> int act" where
  "call_code E c w = (let h = trace w @ [c] in (ext_code E h, w\<lparr>trace := h\<rparr>))"

definition read_attr :: "env \<Rightarrow> call \<Rightarrow> val act" where
  "read_attr E c w = (let h = trace w @ [c] in (Inr (ext_attr E h), w\<lparr>trace := h\<rparr>))"

definition read_jobs :: "env \<Rightarrow> call \<Rightarrow> (val list) act" where
  "read_jobs E c w = (let h = trace w @ [c] in (Inr (ext_jobs E h), w\<lparr>trace := h\<rparr>))"

definition time_time :: "env \<Rightarrow> world \<Rightarrow> int \<times> world" where
  "time_time E w = (let h = trace w @ [Time_time] in (ext_time E h, w\<lparr>trace := h\<rparr>))"

definition getattr_found :: "env \<Rightarrow> call \<Rightarrow> world \<Rightarrow> bool \<times> world" where
  "getattr_found E c w = (let h = trace w @ [c] in (ext_found E h, w\<lparr>trace := h\<rparr>))"

text \<open>\<open>retcode = rc\<close> on the global.\<close>

definition set_retcode :: "int \<Rightarrow> unit act" where
  "set_retcode rc w = (Inr (), w\<lparr>retcode := rc\<rparr>)"

text \<open>
  \<open>with open(path, 'w') as fileh: fileh.write(text)\<close>; opening is taken to succeed
  for a string path.
\<close>

definition write_text :: "val \<Rightarrow> string \<Rightarrow> unit act" where
  "write_text path text w =
     (case path of
        VStr p \<Rightarrow> (Inr (), w\<lparr>files := (files w)(p \<mapsto> TextFile text)\<rparr>)
      | _ \<Rightarrow> (Inl (Exn ''TypeError'' ''open''), w))"

section \<open>save\_state\<close>

text \<open>The first loop of \<open>save_state\<close>: \<open>cfg[key] = val\<close> for every item.\<close>

fun merge_items :: "(string \<times> val) list \<Rightarrow> cfg \<Rightarrow> cfg" where
  "merge_items [] c = c"
| "merge_items ((k, v) # ups) c = merge_items ups (c(k \<mapsto> v))"

text \<open>The second loop: \<open>config.set('state', key, val)\<close> for every item that is not None.\<close>

fun set_items :: "(string \<times> val) list \<Rightarrow> ini \<Rightarrow> ini" where
  "set_items [] p = p"
| "set_items ((k, v) # ups) p =
     set_items ups (if v \<noteq> VNone then ini_set p ''state'' k v else p)"

text \<open>
  \<open>save_state(cfg, state)\<close>.  The update dictionary is the list of its items, in
  iteration order.  \<open>cfg.get('_parser')\<close> must be the parser (anything else has no
  \<open>has_section\<close>: AttributeError) and \<open>cfg.get('rc')\<close> a string (anything else
  cannot be opened: TypeError).  Opening the rc file for writing is taken to succeed.
\<close>

definition save_state :: "(string \<times> val) list \<Rightarrow> unit act" where
  "save_state ups w =
     (let w1 = w\<lparr>cfg := merge_items ups (cfg w)\<rparr> in
      if \<not> truthy (pyget (cfg w1) ''state'') then (Inr (), w1)
      else if pyget (cfg w1) ''_parser'' \<noteq> VParser
        then (Inl (Exn ''AttributeError'' ''has_section''), w1)
      else
        let p1 = (if has_section (parser w1) ''state'' then parser w1
                  else add_section (parser w1) ''state'');
            w2 = w1\<lparr>parser := set_items ups p1\<rparr>
        in case pyget (cfg w2) ''rc'' of
             VStr path \<Rightarrow> (Inr (), w2\<lparr>files := (files w2)(path \<mapsto> IniFile (parser w2))\<rparr>)
           | _ \<Rightarrow> (Inl (Exn ''TypeError'' ''open''), w2))"

text \<open>What the rc file on disk holds for a key of its \<open>state\<close> section.\<close>

definition persisted :: "world \<Rightarrow> string \<Rightarrow> val option" where
  "persisted w k =
     (case pyget (cfg w) ''rc'' of
        VStr path \<Rightarrow> (case files w path of
                        Some (IniFile p) \<Rightarrow> ini_get p ''state'' k
                      | _ \<Rightarrow> None)
      | _ \<Rightarrow> None)"

text \<open>
  The file and the parser agree on the \<open>state\<close> section, as they do after
  \<open>config.read\<close> and after every \<open>config.write\<close>.
\<close>

definition in_sync :: "world \<Rightarrow> bool" where
  "in_sync w = (\<forall>k. persisted w k = ini_get (parser w) ''state'' k)"

definition persist_enabled :: "world \<Rightarrow> bool" where
  "persist_enabled w =
     (truthy (pyget (cfg w) ''state'') \<and> pyget (cfg w) ''_parser'' = VParser
      \<and> (\<exists>path. pyget (cfg w) ''rc'' = VStr path))"

section \<open>The JUnit harness\<close>

text \<open>\<open>traceback.format_exc()\<close>, kept as the exception's class and message.\<close>

definition format_exc :: "exn \<Rightarrow> string" where
  "format_exc e = exn_class e @ '': '' @ exn_msg e"

text \<open>
  \<open>junit(func)\<close> returns \<open>wrapper\<close>; \<open>name\<close> is \<open>func.__name__\<close>.  The wrapped
  functions contain no \<open>sys.exit\<close>, so \<open>func\<close> either returns or raises an
  \<open>Exception\<close>.  \<open>cfg['_testcases']\<close> is the list made by \<open>load_config\<close> unless a
  section of the rc file rebinds the name to a string, which has no \<open>append\<close>.
\<close>

definition junit :: "string \<Rightarrow> (env \<Rightarrow> unit act) \<Rightarrow> env \<Rightarrow> unit act" where
  "junit name func E w =
     (if truthy (pyget (cfg w) ''junit'') then
        (case time_time E w of (tstart, w1) \<Rightarrow>
         case func E w1 of (r, w2) \<Rightarrow>
         let fail1 = (case r of Inl e \<Rightarrow> Some (format_exc e) | Inr _ \<Rightarrow> None);
             w3 = (case r of Inl e \<Rightarrow> w2\<lparr>retcode := 1\<rparr> | Inr _ \<Rightarrow> w2);
             fail2 = (if retcode w3 \<noteq> 0 \<and> fail1 = None
                      then Some (''Step finished with retcode: '' @ str_int (retcode w3))
                      else fail1)
         in case time_time E w3 of (tend, w4) \<Rightarrow>
            let tc = \<lparr>tc_name = name, tc_classname = ''skt'', tc_elapsed = tend - tstart,
                      tc_stdout = cfg w4, tc_failure = fail2\<rparr>
            in (case cfg w4 ''_testcases'' of
                  None \<Rightarrow> (Inl (Exn ''KeyError'' ''_testcases''), w4)
                | Some VTestcases \<Rightarrow> (Inr (), w4\<lparr>testcases := testcases w4 @ [tc]\<rparr>)
                | Some _ \<Rightarrow> (Inl (Exn ''AttributeError'' ''append''), w4)))
      else func E w)"

section \<open>cmd\_merge\<close>

text \<open>The stub branch (\<open>test is not None\<close>).\<close>

definition merge_stub :: "env \<Rightarrow> val \<Rightarrow> unit act" where
  "merge_stub E test =
     (if py_eq test (VInt 0) then
        bind (get ''baserepo'') (\<lambda>baserepo.
        save_state [(''baserepo'', baserepo), (''mergelog'', VStr [])])
      else
        bind (read_attr E Ktree_mergelog) (\<lambda>path.
        seq (write_text path ''stub'')
        (bind (read_attr E Ktree_mergelog) (\<lambda>mergelog.
         save_state [(''mergelog'', mergelog)]))))"

text \<open>
  The loop over \<open>cfg.get('merge_ref')\<close>.  The result is \<open>None\<close> when the function
  returns from inside the loop, and the \<open>utypes\<close> list otherwise.
\<close>

fun merge_git_refs :: "env \<Rightarrow> val \<Rightarrow> val list \<Rightarrow> nat \<Rightarrow> string list \<Rightarrow> (string list option) act" where
  "merge_git_refs E bhead [] idx utypes = ret (Some utypes)"
| "merge_git_refs E bhead (mb # mbs) idx utypes =
     bind (lift (py_item0 mb)) (\<lambda>url.
     seq (save_state [(''mergerepo_'' @ fmt_02d idx, url), (''mergehead_'' @ fmt_02d idx, bhead)])
     (bind (lift (py_iter mb)) (\<lambda>args.
      bind (call_code E (Ktree_merge_git_ref args)) (\<lambda>rc.
      seq (set_retcode rc)
      (if rc \<noteq> 0 then ret None
       else merge_git_refs E bhead mbs (Suc idx) (utypes @ [''[git]''])))))) "

fun merge_patch_files :: "env \<Rightarrow> val list \<Rightarrow> nat \<Rightarrow> unit act" where
  "merge_patch_files E [] idx = ret ()"
| "merge_patch_files E (patch # ps) idx =
     seq (save_state [(''localpatch_'' @ fmt_02d idx, patch)])
     (bind (call_val E (Os_path_abspath patch)) (\<lambda>p.
      seq (call_unit E (Ktree_merge_patch_file p))
      (merge_patch_files E ps (Suc idx))))"

fun merge_patchwork_patches :: "env \<Rightarrow> val list \<Rightarrow> nat \<Rightarrow> unit act" where
  "merge_patchwork_patches E [] idx = ret ()"
| "merge_patchwork_patches E (patch # ps) idx =
     seq (save_state [(''patchwork_'' @ fmt_02d idx, patch)])
     (seq (call_unit E (Ktree_merge_patchwork_patch patch))
      (merge_patchwork_patches E ps (Suc idx)))"

text \<open>The body of the \<open>try\<close> block.\<close>

definition merge_steps :: "env \<Rightarrow> val \<Rightarrow> (string list option) act" where
  "merge_steps E bhead =
     bind (get ''merge_ref'') (\<lambda>merge_ref.
     bind (lift (py_iter merge_ref)) (\<lambda>mbs.
     bind (merge_git_refs E bhead mbs 0 []) (\<lambda>r.
     case r of
       None \<Rightarrow> ret None
     | Some utypes \<Rightarrow>
         bind (get ''patchlist'') (\<lambda>patchlist.
         bind (if truthy patchlist
               then bind (lift (py_iter patchlist)) (\<lambda>ps.
                    seq (merge_patch_files E ps 0) (ret (utypes @ [''[local patch]''])))
               else ret utypes) (\<lambda>utypes1.
         bind (get ''pw'') (\<lambda>pw.
         bind (if truthy pw
               then bind (lift (py_iter pw)) (\<lambda>ps.
                    seq (merge_patchwork_patches E ps 0) (ret (utypes1 @ [''[patchwork]''])))
               else ret utypes1) (\<lambda>utypes2.
         ret (Some utypes2)))))))) "

text \<open>\<open>" ".join(utypes)\<close>.\<close>

fun join_sp :: "string list \<Rightarrow> string" where
  "join_sp [] = []"
| "join_sp [x] = x"
| "join_sp (x # y # zs) = x @ '' '' @ join_sp (y # zs)"

definition cmd_merge_func :: "env \<Rightarrow> unit act" where
  "cmd_merge_func E =
     bind (get ''baserepo'') (\<lambda>baserepo.
     bind (get ''ref'') (\<lambda>ref.
     bind (get ''workdir'') (\<lambda>wdir.
     bind (get ''fetch_depth'') (\<lambda>fetch_depth.
     seq (call_unit E (KernelTree_new baserepo ref wdir fetch_depth))
     (bind (get ''test'') (\<lambda>test.
      if test \<noteq> VNone then merge_stub E test
      else
        bind (call_val E Ktree_checkout) (\<lambda>bhead.
        bind (call_val E (Ktree_get_commit_date bhead)) (\<lambda>commitdate.
        seq (save_state [(''baserepo'', baserepo), (''basehead'', bhead),
                         (''commitdate'', commitdate)])
        (bind (try_except (merge_steps E bhead)
                 (\<lambda>e. bind (read_attr E Ktree_mergelog) (\<lambda>mergelog.
                      seq (save_state [(''mergelog'', mergelog)]) (raise e))))
           (\<lambda>r. case r of
                  None \<Rightarrow> ret ()
                | Some utypes \<Rightarrow>
                    bind (call_val E Ktree_getpath) (\<lambda>kpath.
                    bind (call_val E Ktree_dumpinfo) (\<lambda>buildinfo.
                    bind (call_val E Ktree_get_commit_hash) (\<lambda>buildhead.
                    save_state
                      [(''workdir'', kpath), (''buildinfo'', buildinfo),
                       (''buildhead'', buildhead),
                       (''uid'', VStr (if utypes \<noteq> [] then join_sp utypes
                                      else ''[baseline]''))])))))))))))))"

definition cmd_merge :: "env \<Rightarrow> unit act" where
  "cmd_merge = junit ''cmd_merge'' cmd_merge_func"

section \<open>cmd\_build\<close>

definition cmd_build_func :: "env \<Rightarrow> unit act" where
  "cmd_build_func E =
     bind (read_attr E Strftime_now) (\<lambda>tstamp.
     bind (get ''workdir'') (\<lambda>workdir.
     bind (get ''baseconfig'') (\<lambda>baseconfig.
     bind (get ''cfgtype'') (\<lambda>cfgtype.
     bind (get ''makeopts'') (\<lambda>makeopts.
     bind (get ''enable_debuginfo'') (\<lambda>enable_debuginfo.
     bind (get ''rh_configs_glob'') (\<lambda>rh_configs_glob.
     seq (call_unit E (KernelBuilder_new [workdir, baseconfig, cfgtype, makeopts,
                                           enable_debuginfo, rh_configs_glob]))
     (bind (get ''test'') (\<lambda>test.
      if test \<noteq> VNone then
        (if py_eq test (VInt 0)
         then bind (get ''buildhead'') (\<lambda>buildhead. save_state [(''buildhead'', buildhead)])
         else save_state [(''buildlog'', VStr ''stub'')])
      else
        bind (get ''wipe'') (\<lambda>wipe.
        seq (when_act (truthy wipe) (call_unit E Builder_clean_kernel_source))
        (bind (try_except (call_val E Builder_mktgz)
                 (\<lambda>e. bind (read_attr E Builder_buildlog) (\<lambda>buildlog.
                      seq (save_state [(''buildlog'', buildlog)]) (raise e))))
           (\<lambda>tgz.
        bind (get ''buildhead'') (\<lambda>buildhead.
        bind (if truthy buildhead then ret (VStr (pystr E buildhead @ ''.tar.gz''))
              else lift (addtstamp tgz (pystr E tstamp))) (\<lambda>ttgz.
        seq (call_unit E (Shutil_move tgz ttgz))
        (bind (get ''buildinfo'') (\<lambda>buildinfo.
         bind (if truthy buildinfo
               then bind (if truthy buildhead then ret (VStr (pystr E buildhead @ ''.csv''))
                          else lift (addtstamp buildinfo (pystr E tstamp))) (\<lambda>tb.
                    seq (call_unit E (Shutil_move buildinfo tb)) (ret tb))
               else ret VNone) (\<lambda>tbuildinfo.
         bind (call_val E Builder_get_cfgpath) (\<lambda>cfgpath.
         seq (call_unit E (Shutil_copyfile cfgpath (VStr (pystr E tbuildinfo @ ''.config''))))
         (bind (call_val E Builder_getrelease) (\<lambda>krelease.
          bind (read_attr E Builder_build_arch) (\<lambda>kernel_arch.
          save_state
            [(''tarpkg'', ttgz), (''buildinfo'', tbuildinfo),
             (''buildconf'', VStr (pystr E tbuildinfo @ ''.config'')),
             (''krelease'', krelease), (''kernel_arch'', kernel_arch)])))))))))))))))))))))"

definition cmd_build :: "env \<Rightarrow> unit act" where
  "cmd_build = junit ''cmd_build'' cmd_build_func"

section \<open>cmd\_publish\<close>

definition missing_tarpkg :: exn where
  "missing_tarpkg =
     Exn ''Exception''
       (''skt publish is missing '' @ [CHR 0x22] @ ''--tarpkg <path>'' @ [CHR 0x22] @ '' option'')"

definition cmd_publish_func :: "env \<Rightarrow> unit act" where
  "cmd_publish_func E =
     bind (get ''publisher'') (\<lambda>publisher.
     bind (lift (py_iter publisher)) (\<lambda>pargs.
     seq (call_unit E (Getpublisher pargs))
     (bind (get ''tarpkg'') (\<lambda>tarpkg.
      if \<not> truthy tarpkg then raise missing_tarpkg
      else
        bind (get ''test'') (\<lambda>test.
        if test \<noteq> VNone then save_state [(''buildurl'', VStr ''some.url.com'')]
        else
          bind (call_val E (Publisher_publish tarpkg)) (\<lambda>url.
          bind (get ''buildinfo'') (\<lambda>buildinfo.
          bind (if truthy buildinfo then call_val E (Publisher_publish buildinfo)
                else ret VNone) (\<lambda>infourl.
          bind (get ''buildconf'') (\<lambda>buildconf.
          bind (if truthy buildconf then call_val E (Publisher_publish buildconf)
                else ret VNone) (\<lambda>cfgurl.
          save_state [(''buildurl'', url), (''cfgurl'', cfgurl), (''infourl'', infourl)]))))))))))"

definition cmd_publish :: "env \<Rightarrow> unit act" where
  "cmd_publish = junit ''cmd_publish'' cmd_publish_func"

section \<open>cmd\_run\<close>

text \<open>The loop over \<open>runner.jobs\<close>.\<close>

fun save_jobs :: "env \<Rightarrow> val list \<Rightarrow> nat \<Rightarrow> unit act" where
  "save_jobs E [] idx = ret ()"
| "save_jobs E (job # jobs) idx =
     bind (get ''wait'') (\<lambda>wait.
     bind (get ''junit'') (\<lambda>junit_dir.
     seq (when_act (truthy wait \<and> truthy junit_dir)
            (call_unit E (Runner_dumpjunitresults 0 job junit_dir)))
     (seq (save_state [(''jobid_'' @ str_nat idx, job)])
      (save_jobs E jobs (Suc idx)))))"

text \<open>The body of the baseline \<open>if\<close>.\<close>

definition baseline_check :: "env \<Rightarrow> unit act" where
  "baseline_check E =
     bind (get ''runner'') (\<lambda>runner.
     bind (lift (py_iter runner)) (\<lambda>rargs.
     seq (call_unit E (Getrunner 1 rargs))
     (bind (get ''publisher'') (\<lambda>publisher.
      bind (lift (py_iter publisher)) (\<lambda>pargs.
      seq (call_unit E (Getpublisher pargs))
      (bind (get ''basehead'') (\<lambda>basehead.
       bind (call_val E (Publisher_geturl (pystr E basehead @ ''.tar.gz''))) (\<lambda>baseurl.
       bind (call_val E (Runner_get_mfhost 0)) (\<lambda>basehost.
       bind (get ''krelease'') (\<lambda>krelease.
       bind (get ''wait'') (\<lambda>wait.
       bind (call_code E (Runner_run 1 baseurl krelease wait (Some (VStr ''baseline check''))
                            None (Some basehost) (Some False))) (\<lambda>baseres.
       seq (save_state [(''baseretcode'', VInt baseres)])
       (when_act (baseres \<noteq> 0) (set_retcode 0))))))))))))))"

text \<open>The condition of the baseline \<open>if\<close>.\<close>

definition baseline_wanted :: "world \<Rightarrow> bool" where
  "baseline_wanted w =
     (retcode w \<noteq> 0 \<and> truthy (pyget (cfg w) ''basehead'') \<and> truthy (pyget (cfg w) ''publisher'')
      \<and> \<not> py_eq (pyget (cfg w) ''basehead'') (pyget (cfg w) ''buildhead''))"

definition set_cfg :: "string \<Rightarrow> val \<Rightarrow> unit act" where
  "set_cfg k v w = (Inr (), w\<lparr>cfg := (cfg w)(k \<mapsto> v)\<rparr>)"

definition save_retcode :: "unit act" where
  "save_retcode w = save_state [(''retcode'', VInt (retcode w))] w"

definition cmd_run_func :: "env \<Rightarrow> unit act" where
  "cmd_run_func E =
     bind (get ''test'') (\<lambda>test.
     if test \<noteq> VNone then save_state [(''retcode'', test)]
     else
       bind (get ''runner'') (\<lambda>runner.
       bind (lift (py_iter runner)) (\<lambda>rargs.
       seq (call_unit E (Getrunner 0 rargs))
       (bind (get ''buildurl'') (\<lambda>buildurl.
        bind (get ''krelease'') (\<lambda>krelease.
        bind (get ''wait'') (\<lambda>wait.
        bind (get ''uid'') (\<lambda>uid.
        bind (get ''kernel_arch'') (\<lambda>arch.
        bind (call_code E (Runner_run 0 buildurl krelease wait (Some uid) (Some arch)
                             None None)) (\<lambda>rc.
        seq (set_retcode rc)
        (bind (read_jobs E (Runner_jobs 0)) (\<lambda>jobs.
         seq (save_jobs E jobs 0)
         (bind (read_jobs E (Runner_jobs 0)) (\<lambda>jobs'.
          seq (set_cfg ''jobs'' (VList jobs'))
          (seq (\<lambda>w. if baseline_wanted w then baseline_check E w else ret () w)
           save_retcode)))))))))))))))"

definition cmd_run :: "env \<Rightarrow> unit act" where
  "cmd_run = junit ''cmd_run'' cmd_run_func"

section \<open>cmd\_report, cmd\_cleanup, cmd\_all and main\<close>

text \<open>
  \<open>cmd_report\<close> can leave through \<open>sys.exit\<close>, which raises \<open>SystemExit\<close>; that is not
  an \<open>Exception\<close>, so it has an outcome of its own.
\<close>

datatype stop = Raise exn | SysExit string

definition lift_act :: "'a act \<Rightarrow> (stop, 'a) action" where
  "lift_act m w = (case m w of (Inl e, w') \<Rightarrow> (Inl (Raise e), w') | (Inr a, w') \<Rightarrow> (Inr a, w'))"

text \<open>\<open>cfg['reporter']['type']\<close>.\<close>

definition reporter_type :: "val \<Rightarrow> exn + val" where
  "reporter_type r =
     (case r of
        VDict d \<Rightarrow> (case map_of d ''type'' of None \<Rightarrow> Inl (Exn ''KeyError'' ''type'')
                                               | Some t \<Rightarrow> Inr t)
      | VList xs \<Rightarrow> Inl (Exn ''TypeError'' ''list indices must be integers, not str'')
      | VStr s \<Rightarrow> Inl (Exn ''TypeError'' ''string indices must be integers, not str'')
      | _ \<Rightarrow> Inl (Exn ''TypeError'' ''object has no attribute __getitem__''))"

text \<open>
  A \<open>type\<close> that is not a string has no \<open>title\<close>: the AttributeError is caught and the
  handler then reads \<open>class_name\<close>, which was never bound.
\<close>

definition cmd_report :: "env \<Rightarrow> (stop, unit) action" where
  "cmd_report E =
     bind (get ''reporter'') (\<lambda>reporter.
     if \<not> truthy reporter then ret ()
     else
       bind (lift_act (lift (reporter_type reporter))) (\<lambda>t.
       case t of
         VStr s \<Rightarrow>
           (\<lambda>w. case getattr_found E (Reporter_getattr (title s @ ''Reporter'')) w of
                  (found, w') \<Rightarrow>
                    if \<not> found
                    then (Inl (SysExit (''Unable to find specified reporter type: ''
                                         @ title s @ ''Reporter'')), w')
                    else bind (get ''test'') (\<lambda>test.
                         if test \<noteq> VNone then ret ()
                         else lift_act (seq (call_unit E Reporter_new)
                                            (call_unit E Reporter_report))) w')
       | _ \<Rightarrow> raise (Raise (Exn ''UnboundLocalError'' ''class_name''))))"

text \<open>\<open>with open(cfg.get('rc'), 'w') as fileh: config.write(fileh)\<close>.\<close>

definition write_rc :: "unit act" where
  "write_rc w =
     (case pyget (cfg w) ''rc'' of
        VStr path \<Rightarrow> (Inr (), w\<lparr>files := (files w)(path \<mapsto> IniFile (parser w))\<rparr>)
      | _ \<Rightarrow> (Inl (Exn ''TypeError'' ''open''), w))"

text \<open>\<open>os.unlink(path)\<close> inside \<open>try ... except OSError: pass\<close>.\<close>

definition unlink_quiet :: "val \<Rightarrow> unit act" where
  "unlink_quiet path w =
     (case path of
        VStr p \<Rightarrow> (Inr (), w\<lparr>files := (files w)(p := None)\<rparr>)
      | _ \<Rightarrow> (Inl (Exn ''TypeError'' ''unlink''), w))"

definition cmd_cleanup :: "env \<Rightarrow> unit act" where
  "cmd_cleanup E =
     bind (get ''_parser'') (\<lambda>config.
     if config \<noteq> VParser then raise (Exn ''AttributeError'' ''has_section'')
     else
       seq (\<lambda>w. if has_section (parser w) ''state''
                then write_rc (w\<lparr>parser := remove_section (parser w) ''state''\<rparr>)
                else ret () w)
       (bind (get ''buildinfo'') (\<lambda>buildinfo.
        seq (when_act (truthy buildinfo) (unlink_quiet buildinfo))
        (bind (get ''tarpkg'') (\<lambda>tarpkg.
         seq (when_act (truthy tarpkg) (unlink_quiet tarpkg))
         (bind (get ''wipe'') (\<lambda>wipe.
          bind (get ''workdir'') (\<lambda>workdir.
          when_act (truthy wipe \<and> truthy workdir) (call_unit E (Shutil_rmtree workdir))))))))))"

definition cmd_all :: "env \<Rightarrow> (stop, unit) action" where
  "cmd_all E =
     seq (lift_act (cmd_merge E))
     (seq (lift_act (cmd_build E))
     (seq (lift_act (cmd_publish E))
     (seq (lift_act (cmd_run E))
     (bind (get ''wait'') (\<lambda>wait.
      seq (when_act (truthy wait) (cmd_report E))
      (lift_act (cmd_cleanup E)))))))"

text \<open>
  \<open>args.func(cfg)\<close>: \<open>cfg\<close> is \<open>vars(args)\<close>, the namespace's own dictionary, so the
  attribute is read from \<open>cfg\<close>.
\<close>

definition dispatch :: "env \<Rightarrow> string \<Rightarrow> (stop, unit) action" where
  "dispatch E name =
     (if name = ''cmd_merge'' then lift_act (cmd_merge E)
      else if name = ''cmd_build'' then lift_act (cmd_build E)
      else if name = ''cmd_publish'' then lift_act (cmd_publish E)
      else if name = ''cmd_run'' then lift_act (cmd_run E)
      else if name = ''cmd_report'' then cmd_report E
      else if name = ''cmd_cleanup'' then lift_act (cmd_cleanup E)
      else if name = ''cmd_all'' then cmd_all E
      else raise (Raise (Exn ''NameError'' name)))"

definition call_func :: "env \<Rightarrow> (stop, unit) action" where
  "call_func E w =
     (case cfg w ''func'' of
        None \<Rightarrow> (Inl (Raise (Exn ''AttributeError'' ''func'')), w)
      | Some (VFunc name) \<Rightarrow> dispatch E name w
      | Some _ \<Rightarrow> (Inl (Raise (Exn ''TypeError'' ''object is not callable'')), w))"

text \<open>The JUnit suite written by \<open>main\<close> when \<open>cfg.get('junit')\<close> is set.\<close>

definition write_junit :: "env \<Rightarrow> (stop, unit) action" where
  "write_junit E w =
     (if truthy (pyget (cfg w) ''junit'') then
        (case pyget (cfg w) ''_testcases'' of
           VTestcases \<Rightarrow>
             (case cfg w ''_name'' of
                None \<Rightarrow> (Inl (Raise (Exn ''AttributeError'' ''_name'')), w)
              | Some n \<Rightarrow>
                  (Inr (), w\<lparr>files := (files w)
                     (pystr E (pyget (cfg w) ''junit'') @ ''/'' @ pystr E n @ ''.xml''
                        \<mapsto> JunitFile (testcases w))\<rparr>))
         | _ \<Rightarrow> (Inl (Raise (Exn ''TypeError'' ''test_cases'')), w))
      else (Inr (), w))"

text \<open>
  The part of \<open>main\<close> after \<open>load_config\<close>: the exit status of the process and the
  final world.  \<open>sys.exit(retcode)\<close> exits with \<open>retcode\<close>; an exception that reaches
  the top, and \<open>sys.exit\<close> with a message, exit with 1.
\<close>

definition run_main :: "env \<Rightarrow> world \<Rightarrow> int \<times> world" where
  "run_main E w =
     (case seq (call_func E) (write_junit E) w of
        (Inl (Raise e), w') \<Rightarrow> (1, w')
      | (Inl (SysExit m), w') \<Rightarrow> (1, w')
      | (Inr _, w') \<Rightarrow> (retcode w', w'))"

section \<open>load\_config\<close>

text \<open>
  The rc file as \<open>config.read\<close> parses it: every value is a string.  (Interpolation
  and the DEFAULT section of ConfigParser are left out.)
\<close>

type_synonym rawini = "(string \<times> (string \<times> string) list) list"

definition read_ini :: "env \<Rightarrow> (string \<rightharpoonup> fcontent) \<Rightarrow> string \<Rightarrow> rawini" where
  "read_ini E fs path =
     (case fs path of
        Some (IniFile p) \<Rightarrow> map (\<lambda>so. (fst so, map (\<lambda>kv. (fst kv, pystr E (snd kv))) (snd so))) p
      | _ \<Rightarrow> [])"

definition ini_of_raw :: "rawini \<Rightarrow> ini" where
  "ini_of_raw p = map (\<lambda>so. (fst so, map (\<lambda>kv. (fst kv, VStr (snd kv))) (snd so))) p"

definition raw_items :: "rawini \<Rightarrow> string \<Rightarrow> (string \<times> string) list" where
  "raw_items p s = (case map_of p s of None \<Rightarrow> [] | Some opts \<Rightarrow> opts)"

definition raw_get :: "rawini \<Rightarrow> string \<Rightarrow> string \<Rightarrow> exn + val" where
  "raw_get p s k =
     (case map_of p s of
        None \<Rightarrow> Inl (Exn ''NoSectionError'' s)
      | Some opts \<Rightarrow> (case map_of opts k of None \<Rightarrow> Inl (Exn ''NoOptionError'' k)
                                          | Some v \<Rightarrow> Inr (VStr v)))"

text \<open>\<open>if key not in cfg: cfg[key] = set(); cfg[key].add(value)\<close>.\<close>

definition set_add :: "cfg \<Rightarrow> string \<Rightarrow> string \<Rightarrow> exn + cfg" where
  "set_add c key value =
     (let c1 = (if c key = None then c(key \<mapsto> VSet []) else c) in
      case c1 key of
        Some (VSet xs) \<Rightarrow> Inr (c1(key \<mapsto> VSet (if value \<in> set xs then xs else xs @ [value])))
      | _ \<Rightarrow> Inl (Exn ''AttributeError'' ''add''))"

text \<open>\<open>if key not in cfg: cfg[key] = list(); cfg[key].append(value)\<close>.\<close>

definition list_append :: "cfg \<Rightarrow> string \<Rightarrow> val \<Rightarrow> exn + cfg" where
  "list_append c key value =
     (let c1 = (if c key = None then c(key \<mapsto> VList []) else c) in
      case c1 key of
        Some (VList xs) \<Rightarrow> Inr (c1(key \<mapsto> VList (xs @ [value])))
      | _ \<Rightarrow> Inl (Exn ''AttributeError'' ''append''))"

text \<open>One round of the loop over \<open>config.items('state')\<close>.\<close>

definition load_state_item :: "string \<times> string \<Rightarrow> cfg \<Rightarrow> exn + cfg" where
  "load_state_item nv c =
     (let name = fst nv; value = snd nv in
      if truthy (pyget c name) then Inr c
      else
        case (if startswith name ''jobid_'' then set_add c ''jobs'' value
              else if startswith name ''mergerepo_'' then list_append c ''mergerepos'' (VStr value)
              else if startswith name ''mergehead_'' then list_append c ''mergeheads'' (VStr value)
              else if startswith name ''localpatch_'' then list_append c ''localpatches'' (VStr value)
              else if startswith name ''patchwork_'' then list_append c ''patchworks'' (VStr value)
              else Inr c) of
          Inl e \<Rightarrow> Inl e
        | Inr c' \<Rightarrow> Inr (c'(name \<mapsto> VStr value)))"

fun load_state_items :: "(string \<times> string) list \<Rightarrow> cfg \<Rightarrow> exn + cfg" where
  "load_state_items [] c = Inr c"
| "load_state_items (nv # rest) c =
     (case load_state_item nv c of Inl e \<Rightarrow> Inl e | Inr c' \<Rightarrow> load_state_items rest c')"

text \<open>The loop over \<open>config.items('config')\<close>.\<close>

fun load_config_items :: "(string \<times> string) list \<Rightarrow> cfg \<Rightarrow> cfg" where
  "load_config_items [] c = c"
| "load_config_items (nv # rest) c =
     load_config_items rest (if truthy (pyget c (fst nv)) then c else c(fst nv \<mapsto> VStr (snd nv)))"

text \<open>
  The two loops together: the \<open>state\<close> section first (only when \<open>cfg.get('state')\<close>
  is set), then the \<open>config\<close> section.
\<close>

definition load_sections :: "rawini \<Rightarrow> cfg \<Rightarrow> exn + cfg" where
  "load_sections p c =
     (case (if truthy (pyget c ''state'') \<and> map_of p ''state'' \<noteq> None
            then load_state_items (raw_items p ''state'') c else Inr c) of
        Inl e \<Rightarrow> Inl e
      | Inr c1 \<Rightarrow> Inr (if map_of p ''config'' \<noteq> None
                       then load_config_items (raw_items p ''config'') c1 else c1))"

text \<open>A step that may raise, followed by the rest.\<close>

definition and_then :: "exn + 'a \<Rightarrow> ('a \<Rightarrow> exn + 'b) \<Rightarrow> exn + 'b" where
  "and_then r f = (case r of Inl e \<Rightarrow> Inl e | Inr a \<Rightarrow> f a)"

definition load_publisher :: "rawini \<Rightarrow> cfg \<Rightarrow> exn + cfg" where
  "load_publisher p c =
     (if map_of p ''publisher'' \<noteq> None \<and> \<not> truthy (pyget c ''publisher'') then
        and_then (raw_get p ''publisher'' ''type'') (\<lambda>t.
        and_then (raw_get p ''publisher'' ''destination'') (\<lambda>d.
        and_then (raw_get p ''publisher'' ''baseurl'') (\<lambda>b.
        Inr (c(''publisher'' \<mapsto> VList [t, d, b])))))
      else Inr c)"

text \<open>\<open>v[n]\<close> for a list or a string.\<close>

definition py_item :: "val \<Rightarrow> nat \<Rightarrow> exn + val" where
  "py_item v n =
     (case v of
        VList xs \<Rightarrow> (if n < length xs then Inr (xs ! n)
                      else Inl (Exn ''IndexError'' ''list index out of range''))
      | VStr s \<Rightarrow> (if n < length s then Inr (VStr [s ! n])
                    else Inl (Exn ''IndexError'' ''string index out of range''))
      | VDict d \<Rightarrow> Inl (Exn ''KeyError'' (str_nat n))
      | _ \<Rightarrow> Inl (Exn ''TypeError'' ''object is not subscriptable''))"

definition literal_eval :: "env \<Rightarrow> val \<Rightarrow> exn + val" where
  "literal_eval E v =
     (case v of VStr s \<Rightarrow> ext_literal_eval E s
              | _ \<Rightarrow> Inl (Exn ''ValueError'' ''malformed string''))"

definition load_runner :: "env \<Rightarrow> rawini \<Rightarrow> cfg \<Rightarrow> exn + cfg" where
  "load_runner E p c =
     (if map_of p ''runner'' \<noteq> None \<and> \<not> truthy (pyget c ''runner'') then
        and_then (raw_get p ''runner'' ''type'') (\<lambda>t.
        Inr (c(''runner'' \<mapsto>
               VList [t, VDict (map (\<lambda>kv. (fst kv, VStr (snd kv)))
                                  (filter (\<lambda>kv. fst kv \<noteq> ''type'') (raw_items p ''runner'')))])))
      else if truthy (pyget c ''runner'') then
        and_then (py_item (pyget c ''runner'') 0) (\<lambda>t.
        and_then (py_item (pyget c ''runner'') 1) (\<lambda>s.
        and_then (literal_eval E s) (\<lambda>d.
        Inr (c(''runner'' \<mapsto> VList [t, d])))))
      else Inr c)"

definition load_reporter :: "rawini \<Rightarrow> cfg \<Rightarrow> cfg" where
  "load_reporter p c =
     (if py_eq (pyget c ''_name'') (VStr ''report'') \<and> truthy (pyget c ''type'') then
        c(''reporter'' \<mapsto> VDict [(''type'', pyget c ''type''), (''mail_to'', pyget c ''mail_to''),
                                  (''mail_from'', pyget c ''mail_from''),
                                  (''mail_subject'', pyget c ''mail_subject''),
                                  (''mail_header'', pyget c ''mail_header'')])
      else if map_of p ''reporter'' \<noteq> None then
        c(''reporter'' \<mapsto> VList (map (\<lambda>kv. VList [VStr (fst kv), VStr (snd kv)])
                                   (raw_items p ''reporter'')))
      else c)"

text \<open>The loop over \<open>config.sections()\<close> that collects the \<open>merge-\<close> sections.\<close>

fun load_merge_sections :: "rawini \<Rightarrow> rawini \<Rightarrow> cfg \<Rightarrow> exn + cfg" where
  "load_merge_sections p [] c = Inr c"
| "load_merge_sections p (so # rest) c =
     (if startswith (fst so) ''merge-'' then
        and_then (raw_get p (fst so) ''url'') (\<lambda>url.
        and_then (if map_of (snd so) ''ref'' \<noteq> None
                  then and_then (raw_get p (fst so) ''ref'') (\<lambda>ref. Inr [url, ref])
                  else Inr [url]) (\<lambda>mdesc.
        case c ''merge_ref'' of
          Some (VList xs) \<Rightarrow> load_merge_sections p rest (c(''merge_ref'' \<mapsto> VList (xs @ [VList mdesc])))
        | _ \<Rightarrow> Inl (Exn ''AttributeError'' ''append'')))
      else load_merge_sections p rest c)"

definition load_merge_ref :: "rawini \<Rightarrow> cfg \<Rightarrow> exn + cfg" where
  "load_merge_ref p c =
     load_merge_sections p p
       (if \<not> truthy (pyget c ''merge_ref'') then c(''merge_ref'' \<mapsto> VList []) else c)"

text \<open>\<open>if cfg.get(key): cfg[key] = full_path(cfg.get(key))\<close>.\<close>

definition abs_key :: "env \<Rightarrow> string \<Rightarrow> cfg \<Rightarrow> exn + cfg" where
  "abs_key E key c =
     (if truthy (pyget c key)
      then and_then (full_path E (pyget c key)) (\<lambda>v. Inr (c(key \<mapsto> v)))
      else Inr c)"

fun full_paths :: "env \<Rightarrow> val list \<Rightarrow> exn + val list" where
  "full_paths E [] = Inr []"
| "full_paths E (x # xs) =
     and_then (full_path E x) (\<lambda>y. and_then (full_paths E xs) (\<lambda>ys. Inr (y # ys)))"

text \<open>
  The loop over \<open>enumerate(cfg.get('result') or [])\<close>: a list is rewritten in place;
  any other true value either cannot be iterated or cannot be assigned into.
\<close>

definition abs_results :: "env \<Rightarrow> cfg \<Rightarrow> exn + cfg" where
  "abs_results E c =
     (if \<not> truthy (pyget c ''result'') then Inr c
      else case pyget c ''result'' of
             VList xs \<Rightarrow> and_then (full_paths E xs) (\<lambda>ys. Inr (c(''result'' \<mapsto> VList ys)))
           | _ \<Rightarrow> Inl (Exn ''TypeError'' ''result''))"

definition abs_paths :: "env \<Rightarrow> cfg \<Rightarrow> exn + cfg" where
  "abs_paths E c =
     and_then (if truthy (pyget c ''workdir'') then abs_key E ''workdir'' c
               else Inr (c(''workdir'' \<mapsto> VStr (ext_mkdtemp E)))) (\<lambda>c1.
     and_then (abs_key E ''basecfg'' c1) (\<lambda>c2.
     and_then (abs_key E ''rc'' c2) (\<lambda>c3.
     and_then (abs_key E ''buildinfo'' c3) (\<lambda>c4.
     and_then (abs_key E ''buildconf'' c4) (\<lambda>c5.
     and_then (abs_key E ''tarpkg'' c5) (\<lambda>c6.
     and_then (abs_results E c6) (\<lambda>c7.
     if truthy (pyget c7 ''junit'')
     then and_then (full_path E (pyget c7 ''junit'')) (\<lambda>_. Inr c7)
     else Inr c7)))))))"

text \<open>
  \<open>load_config(args)\<close>: \<open>args\<close> is the dictionary of the parsed command line
  (\<open>vars(args)\<close>) and \<open>fs\<close> the files on disk.  The result is the world the command
  starts in.
\<close>

definition load_cfg :: "env \<Rightarrow> rawini \<Rightarrow> cfg \<Rightarrow> exn + cfg" where
  "load_cfg E p c =
     and_then (load_sections p (c(''_parser'' \<mapsto> VParser, ''_testcases'' \<mapsto> VTestcases))) (\<lambda>c1.
     and_then (load_publisher p c1) (\<lambda>c2.
     and_then (load_runner E p c2) (\<lambda>c3.
     and_then (load_merge_ref p (load_reporter p c3)) (\<lambda>c4.
     abs_paths E c4))))"

definition load_config :: "env \<Rightarrow> cfg \<Rightarrow> (string \<rightharpoonup> fcontent) \<Rightarrow> exn + world" where
  "load_config E args fs =
     (case pyget args ''rc'' of
        VStr rc \<Rightarrow>
          (let p = read_ini E fs (ext_abspath E rc) in
           and_then (load_cfg E p args) (\<lambda>c.
           Inr \<lparr>cfg = c, parser = ini_of_raw p, files = fs, retcode = 0, testcases = [],
                trace = []\<rparr>))
      | _ \<Rightarrow> Inl (Exn ''AttributeError'' ''startswith''))"

text \<open>The option names \<open>setup_parser\<close> defines (the keys of \<open>vars(args)\<close>).\<close>

definition argparse_keys :: "string list" where
  "argparse_keys =
     [''workdir'', ''wipe'', ''junit'', ''verbose'', ''rc'', ''state'', ''test'',
      ''baserepo'', ''ref'', ''patchlist'', ''pw'', ''merge_ref'', ''fetch_depth'',
      ''baseconfig'', ''cfgtype'', ''enable_debuginfo'', ''makeopts'', ''rh_configs_glob'',
      ''publisher'', ''tarpkg'', ''buildinfo'',
      ''runner'', ''buildurl'', ''krelease'', ''wait'',
      ''type'', ''mail_to'', ''mail_from'', ''mail_subject'', ''mail_header'', ''result'',
      ''smtp_url'', ''func'', ''_name'']"

text \<open>
  \<open>main\<close>, from the parsed arguments on: the exit status and the final world.
  (\<open>check_args\<close> only looks at the \<open>build\<close> and \<open>report\<close> commands and ends the
  process through \<open>parser.error\<close>; it is not part of the model.)
\<close>

definition main :: "env \<Rightarrow> cfg \<Rightarrow> (string \<rightharpoonup> fcontent) \<Rightarrow> int \<times> world option" where
  "main E args fs =
     (case load_config E args fs of
        Inl e \<Rightarrow> (1, None)
      | Inr w \<Rightarrow> (case run_main E w of (code, w') \<Rightarrow> (code, Some w')))"

section \<open>Calls named in the statements\<close>

text \<open>The call \<open>cmd_run\<close> makes on the primary runner, from the dictionary it reads.\<close>

definition primary_run :: "world \<Rightarrow> call" where
  "primary_run w =
     Runner_run 0 (pyget (cfg w) ''buildurl'') (pyget (cfg w) ''krelease'') (pyget (cfg w) ''wait'')
       (Some (pyget (cfg w) ''uid'')) (Some (pyget (cfg w) ''kernel_arch'')) None None"

text \<open>
  The five calls of the baseline check, in order: the second runner, the publisher, the
  URL derived from the base head, the host of the primary run, and the baseline run on
  that host with rescheduling off.
\<close>

definition baseline_calls :: "env \<Rightarrow> world \<Rightarrow> val list \<Rightarrow> val list \<Rightarrow> val \<Rightarrow> val \<Rightarrow> call list" where
  "baseline_calls E w rargs pargs baseurl basehost =
     [Getrunner 1 rargs, Getpublisher pargs,
      Publisher_geturl (pystr E (pyget (cfg w) ''basehead'') @ ''.tar.gz''),
      Runner_get_mfhost 0,
      Runner_run 1 baseurl (pyget (cfg w) ''krelease'') (pyget (cfg w) ''wait'')
        (Some (VStr ''baseline check'')) None (Some basehost) (Some False)]"

section \<open>Example inputs\<close>

definition w0 :: world where
  "w0 = \<lparr>cfg = [''state'' \<mapsto> VBool True, ''_parser'' \<mapsto> VParser, ''rc'' \<mapsto> VStr ''/rc''],
        parser = [(''state'', [(''cfgurl'', VStr ''old'')])],
        files = [''/rc'' \<mapsto> IniFile [(''state'', [(''cfgurl'', VStr ''old'')])]],
        retcode = 0, testcases = [], trace = []\<rparr>"

definition ups0 :: "(string \<times> val) list" where
  "ups0 = [(''cfgurl'', VNone), (''buildurl'', VStr ''u'')]"

definition E_run :: env where
  "E_run = \<lparr>ext_unit = (\<lambda>h. None),
         ext_val = (\<lambda>h. case last h of
                       Publisher_geturl s \<Rightarrow> Inr (VStr (''http://x/'' @ s))
                     | Runner_get_mfhost n \<Rightarrow> Inr (VStr ''host1'')
                     | _ \<Rightarrow> Inr (VStr ''v'')),
         ext_code = (\<lambda>h. case last h of
                       Runner_run n a b c d e f g \<Rightarrow> Inr (if n = 0 then 3 else 1)
                     | _ \<Rightarrow> Inr 0),
         ext_attr = (\<lambda>h. VStr ''attr''),
         ext_jobs = (\<lambda>h. [VStr ''J:1'', VStr ''J:2'']),
         ext_time = (\<lambda>h. int (length h)),
         ext_found = (\<lambda>h. True),
         ext_repr = (\<lambda>v. ''<obj>''),
         ext_abspath = (\<lambda>p. p),
         ext_expanduser = (\<lambda>p. p),
         ext_mkdtemp = ''/tmp/x'',
         ext_literal_eval = (\<lambda>s. Inr (VDict []))\<rparr>"

definition w_run :: world where
  "w_run = \<lparr>cfg = [''state'' \<mapsto> VBool True, ''_parser'' \<mapsto> VParser, ''rc'' \<mapsto> VStr ''/rc'',
               ''_testcases'' \<mapsto> VTestcases,
               ''runner'' \<mapsto> VList [VStr ''beaker'', VDict []],
               ''publisher'' \<mapsto> VList [VStr ''cp'', VStr ''/d'', VStr ''http://x''],
               ''basehead'' \<mapsto> VStr ''b0'', ''buildhead'' \<mapsto> VStr ''b1'',
               ''buildurl'' \<mapsto> VStr ''http://x/b1.tar.gz'', ''wait'' \<mapsto> VBool True],
        parser = [], files = Map.empty, retcode = 0, testcases = [], trace = []\<rparr>"

section \<open>Properties of save\_state\<close>

lemma merge_items_other: "k \<notin> fst ` set ups \<Longrightarrow> merge_items ups c k = c k"
  by (induction ups arbitrary: c) auto

lemma merge_items_hit:
  "distinct (map fst ups) \<Longrightarrow> (k, v) \<in> set ups \<Longrightarrow> merge_items ups c k = Some v"
proof (induction ups arbitrary: c)
  case Nil
  then show ?case by simp
next
  case (Cons a ups)
  obtain k' v' where a: "a = (k', v')" by (cases a)
  show ?case
  proof (cases "(k, v) \<in> set ups")
    case True
    with Cons a show ?thesis by simp
  next
    case False
    with Cons.prems a have kv: "k' = k" "v' = v" by auto
    from Cons.prems a kv have "k \<notin> fst ` set ups" by simp
    with a kv show ?thesis by (simp add: merge_items_other)
  qed
qed

lemma ini_get_set:
  "has_section p s \<Longrightarrow>
     ini_get (ini_set p s k v) s k' = (if k' = k then Some v else ini_get p s k')"
  by (auto simp: has_section_def ini_get_def ini_set_def map_of_map_entry update_conv')

lemma has_section_set: "has_section (ini_set p s k v) s' = has_section p s'"
  by (auto simp: has_section_def ini_set_def map_of_map_entry split: option.splits)

lemma set_items_has_section: "has_section (set_items ups p) s = has_section p s"
proof (induction ups arbitrary: p)
  case Nil
  show ?case by simp
next
  case (Cons a ups)
  obtain k v where a: "a = (k, v)" by (cases a)
  show ?case unfolding a by (simp add: Cons.IH has_section_set)
qed

lemma set_items_other:
  "has_section p ''state'' \<Longrightarrow> (\<forall>v. (k, v) \<in> set ups \<longrightarrow> v = VNone) \<Longrightarrow>
     ini_get (set_items ups p) ''state'' k = ini_get p ''state'' k"
proof (induction ups arbitrary: p)
  case Nil
  show ?case by simp
next
  case (Cons a ups)
  obtain k' v' where a: "a = (k', v')" by (cases a)
  from Cons.prems a have kv: "k' = k \<Longrightarrow> v' = VNone" by simp
  from Cons.prems have rest: "\<forall>v. (k, v) \<in> set ups \<longrightarrow> v = VNone" by simp
  show ?case
  proof (cases "v' = VNone")
    case True
    with Cons.IH [OF Cons.prems(1) rest] a show ?thesis by simp
  next
    case False
    with kv have ne: "k \<noteq> k'" by blast
    have hs: "has_section (ini_set p ''state'' k' v') ''state''"
      using Cons.prems(1) by (simp add: has_section_set)
    from Cons.IH [OF hs rest] a False ne Cons.prems(1) show ?thesis
      by (simp add: ini_get_set)
  qed
qed

lemma set_items_hit:
  "has_section p ''state'' \<Longrightarrow> distinct (map fst ups) \<Longrightarrow> (k, v) \<in> set ups \<Longrightarrow>
     v \<noteq> VNone \<Longrightarrow> ini_get (set_items ups p) ''state'' k = Some v"
proof (induction ups arbitrary: p)
  case Nil
  then show ?case by simp
next
  case (Cons a ups)
  obtain k' v' where a: "a = (k', v')" by (cases a)
  show ?case
  proof (cases "(k, v) \<in> set ups")
    case True
    with Cons a show ?thesis by (auto simp: has_section_set)
  next
    case False
    with Cons.prems a have kv: "k' = k" "v' = v" by auto
    from Cons.prems a kv have "k \<notin> fst ` set ups" by simp
    then have "\<forall>u. (k, u) \<in> set ups \<longrightarrow> u = VNone" by force
    with Cons.prems a kv show ?thesis
      by (simp add: set_items_other has_section_set ini_get_set)
  qed
qed

lemma has_section_add: "has_section (add_section p s) s"
  by (simp add: has_section_def add_section_def)

lemma ini_get_add:
  "\<not> has_section p s \<Longrightarrow> ini_get (add_section p s) s k = ini_get p s k"
  by (simp add: has_section_def add_section_def ini_get_def map_add_def)


lemma save_state_cfg: "cfg (snd (save_state ups w)) = merge_items ups (cfg w)"
  by (simp add: save_state_def Let_def split: val.splits)

lemma save_state_parser_cases:
  "parser (snd (save_state ups w)) = parser w \<or>
   parser (snd (save_state ups w)) =
     set_items ups (if has_section (parser w) ''state'' then parser w
                    else add_section (parser w) ''state'')"
  by (simp add: save_state_def Let_def split: val.splits)

lemma set_items_prepared_other:
  assumes "\<forall>v. (k, v) \<in> set ups \<longrightarrow> v = VNone"
  shows "ini_get (set_items ups (if has_section p ''state'' then p
                                 else add_section p ''state'')) ''state'' k
         = ini_get p ''state'' k"
proof (cases "has_section p ''state''")
  case True
  with assms show ?thesis by (simp add: set_items_other)
next
  case False
  have "ini_get (set_items ups (add_section p ''state'')) ''state'' k
        = ini_get (add_section p ''state'') ''state'' k"
    using assms by (simp add: set_items_other has_section_add)
  with False show ?thesis by (simp add: ini_get_add)
qed

lemma save_state_parser_other:
  assumes "\<forall>v. (k, v) \<in> set ups \<longrightarrow> v = VNone"
  shows "ini_get (parser (snd (save_state ups w))) ''state'' k = ini_get (parser w) ''state'' k"
  using save_state_parser_cases [of ups w] set_items_prepared_other [OF assms, of "parser w"]
  by auto

lemma save_state_files_cases:
  "files (snd (save_state ups w)) = files w \<or>
   (\<exists>path. pyget (cfg (snd (save_state ups w))) ''rc'' = VStr path \<and>
      files (snd (save_state ups w)) =
        (files w)(path \<mapsto> IniFile (parser (snd (save_state ups w)))))"
  by (simp add: save_state_def Let_def split: val.splits)

lemma save_state_persisted_other:
  assumes nul: "\<forall>v. (k, v) \<in> set ups \<longrightarrow> v = VNone"
    and sync: "in_sync w" and rc: "''rc'' \<notin> fst ` set ups"
  shows "persisted (snd (save_state ups w)) k = persisted w k"
proof -
  let ?w = "snd (save_state ups w)"
  have rceq: "pyget (cfg ?w) ''rc'' = pyget (cfg w) ''rc''"
    using rc by (simp add: save_state_cfg pyget_def merge_items_other)
  from save_state_files_cases [of ups w] show ?thesis
  proof
    assume "files ?w = files w"
    with rceq show ?thesis by (simp add: persisted_def split: val.splits)
  next
    assume "\<exists>path. pyget (cfg ?w) ''rc'' = VStr path \<and>
      files ?w = (files w)(path \<mapsto> IniFile (parser ?w))"
    then obtain path where p: "pyget (cfg ?w) ''rc'' = VStr path"
      and f: "files ?w = (files w)(path \<mapsto> IniFile (parser ?w))" by blast
    have "persisted ?w k = ini_get (parser ?w) ''state'' k"
      using p f by (simp add: persisted_def)
    also have "\<dots> = ini_get (parser w) ''state'' k"
      using nul by (rule save_state_parser_other)
    also have "\<dots> = persisted w k"
      using sync by (simp add: in_sync_def)
    finally show ?thesis .
  qed
qed

lemma save_state_enabled:
  assumes "persist_enabled (snd (save_state ups w))"
  shows "fst (save_state ups w) = Inr ()
    \<and> parser (snd (save_state ups w)) =
         set_items ups (if has_section (parser w) ''state'' then parser w
                        else add_section (parser w) ''state'')
    \<and> (\<exists>path. pyget (cfg (snd (save_state ups w))) ''rc'' = VStr path \<and>
          files (snd (save_state ups w)) path = Some (IniFile (parser (snd (save_state ups w)))))"
proof -
  from assms have st: "truthy (pyget (merge_items ups (cfg w)) ''state'')"
    and pa: "pyget (merge_items ups (cfg w)) ''_parser'' = VParser"
    and rc: "\<exists>path. pyget (merge_items ups (cfg w)) ''rc'' = VStr path"
    by (simp_all add: persist_enabled_def save_state_cfg)
  from rc obtain path where "pyget (merge_items ups (cfg w)) ''rc'' = VStr path" ..
  with st pa show ?thesis by (simp add: save_state_def Let_def)
qed

lemma save_state_persisted_hit:
  assumes en: "persist_enabled (snd (save_state ups w))"
    and d: "distinct (map fst ups)" and kv: "(k, v) \<in> set ups" and nn: "v \<noteq> VNone"
  shows "persisted (snd (save_state ups w)) k = Some v"
proof -
  let ?w = "snd (save_state ups w)"
  let ?p = "if has_section (parser w) ''state'' then parser w else add_section (parser w) ''state''"
  from save_state_enabled [OF en] obtain path where
    pe: "parser ?w = set_items ups ?p" and
    rc: "pyget (cfg ?w) ''rc'' = VStr path" and
    f: "files ?w path = Some (IniFile (parser ?w))" by blast
  have hs: "has_section ?p ''state''" by (simp add: has_section_add)
  have "ini_get (set_items ups ?p) ''state'' k = Some v"
    using hs d kv nn by (rule set_items_hit)
  with pe rc f show ?thesis by (simp add: persisted_def)
qed

text \<open>
  Claim C4.  For every update dictionary passed to \<open>save_state\<close>: a key whose value
  is None is set to None in the in-memory dictionary, and what the \<open>state\<close> section
  of the parser and of the rc file holds for that key stays as it was; a key whose
  value is not None is set in memory and, when persistence is enabled, is written to
  the \<open>state\<close> section of the rc file.
\<close>

theorem save_state_null_not_persisted:
  assumes d: "distinct (map fst ups)" and r: "save_state ups w = (r, w')"
  shows "(\<forall>k. (k, VNone) \<in> set ups \<longrightarrow>
            cfg w' k = Some VNone
          \<and> ini_get (parser w') ''state'' k = ini_get (parser w) ''state'' k
          \<and> (in_sync w \<and> ''rc'' \<notin> fst ` set ups \<longrightarrow> persisted w' k = persisted w k))
       \<and> (\<forall>k v. (k, v) \<in> set ups \<and> v \<noteq> VNone \<longrightarrow>
            cfg w' k = Some v
          \<and> (persist_enabled w' \<longrightarrow> r = Inr () \<and> persisted w' k = Some v))"
proof -
  from r have w': "w' = snd (save_state ups w)" and r': "r = fst (save_state ups w)" by simp_all
  have nul: "\<forall>u. (k, u) \<in> set ups \<longrightarrow> u = VNone" if "(k, VNone) \<in> set ups" for k
  proof (intro allI impI)
    fix u assume "(k, u) \<in> set ups"
    with d that show "u = VNone" by (meson eq_key_imp_eq_value)
  qed
  have a: "cfg w' k = Some VNone
          \<and> ini_get (parser w') ''state'' k = ini_get (parser w) ''state'' k
          \<and> (in_sync w \<and> ''rc'' \<notin> fst ` set ups \<longrightarrow> persisted w' k = persisted w k)"
    if "(k, VNone) \<in> set ups" for k
    using that d nul [OF that]
    by (simp add: w' save_state_cfg merge_items_hit save_state_parser_other
        save_state_persisted_other)
  have b: "cfg w' k = Some v
          \<and> (persist_enabled w' \<longrightarrow> r = Inr () \<and> persisted w' k = Some v)"
    if "(k, v) \<in> set ups" "v \<noteq> VNone" for k v
    using that d save_state_enabled [of ups w]
    by (simp add: w' r' save_state_cfg merge_items_hit save_state_persisted_hit)
  from a b show ?thesis by blast
qed

theorem save_state_null_not_persisted_witness:
  "distinct (map fst ups0) \<and> in_sync w0 \<and> ''rc'' \<notin> fst ` set ups0
   \<and> persist_enabled (snd (save_state ups0 w0))
   \<and> fst (save_state ups0 w0) = Inr ()
   \<and> cfg (snd (save_state ups0 w0)) ''cfgurl'' = Some VNone
   \<and> persisted w0 ''cfgurl'' = Some (VStr ''old'')
   \<and> persisted (snd (save_state ups0 w0)) ''cfgurl'' = Some (VStr ''old'')
   \<and> persisted (snd (save_state ups0 w0)) ''buildurl'' = Some (VStr ''u'')"
proof -
  have d: "distinct (map fst ups0)" by (simp add: ups0_def)
  have s: "in_sync w0" by (simp add: in_sync_def persisted_def w0_def pyget_def)
  have rc: "''rc'' \<notin> fst ` set ups0" by (simp add: ups0_def)
  have en: "persist_enabled (snd (save_state ups0 w0))"
    by (simp add: persist_enabled_def save_state_cfg ups0_def w0_def pyget_def)
  have old: "persisted w0 ''cfgurl'' = Some (VStr ''old'')"
    by (simp add: persisted_def w0_def pyget_def ini_get_def)
  have m1: "(''cfgurl'', VNone) \<in> set ups0" and m2: "(''buildurl'', VStr ''u'') \<in> set ups0"
    by (simp_all add: ups0_def)
  have nn: "VStr ''u'' \<noteq> VNone" by simp
  from save_state_null_not_persisted [OF d surjective_pairing] d s rc en old m1 m2 nn
  show ?thesis by metis
qed

section \<open>Actions\<close>

lemma ret_apply: "ret a w = (Inr a, w)"
  by (simp add: ret_def)

lemma raise_apply: "raise e w = (Inl e, w)"
  by (simp add: raise_def)

lemma lift_apply: "lift r w = (r, w)"
  by (simp add: lift_def)

lemma get_apply: "get k w = (Inr (pyget (cfg w) k), w)"
  by (simp add: get_def)

lemma when_act_apply: "when_act c m w = (if c then m w else (Inr (), w))"
  by (simp add: when_act_def ret_def)

lemma bind_Inr_iff:
  "(bind m f w = (Inr b, w')) = (\<exists>a w1. m w = (Inr a, w1) \<and> f a w1 = (Inr b, w'))"
  by (cases "m w") (auto simp: bind_def split: sum.splits)

lemma seq_Inr_iff:
  "(seq m n w = (Inr b, w')) = (\<exists>w1. m w = (Inr (), w1) \<and> n w1 = (Inr b, w'))"
  by (simp add: seq_def bind_Inr_iff)

lemma bind_Inl_iff:
  "(bind m f w = (Inl e, w')) =
     (m w = (Inl e, w') \<or> (\<exists>a w1. m w = (Inr a, w1) \<and> f a w1 = (Inl e, w')))"
  by (cases "m w") (auto simp: bind_def split: sum.splits)

lemma seq_Inl_iff:
  "(seq m n w = (Inl e, w')) =
     (m w = (Inl e, w') \<or> (\<exists>w1. m w = (Inr (), w1) \<and> n w1 = (Inl e, w')))"
  by (simp add: seq_def bind_Inl_iff)

lemma bind_get: "bind (get k) f w = f (pyget (cfg w) k) w"
  by (simp add: bind_def get_def)

lemma call_unit_Inr_iff:
  "(call_unit E c w = (Inr u, w')) = (ext_unit E (trace w @ [c]) = None \<and> w' = w\<lparr>trace := trace w @ [c]\<rparr>)"
  by (auto simp: call_unit_def Let_def split: option.splits)

lemma call_val_iff:
  "(call_val E c w = (r, w')) = (ext_val E (trace w @ [c]) = r \<and> w' = w\<lparr>trace := trace w @ [c]\<rparr>)"
  by (auto simp: call_val_def Let_def)

lemma call_code_iff:
  "(call_code E c w = (r, w')) = (ext_code E (trace w @ [c]) = r \<and> w' = w\<lparr>trace := trace w @ [c]\<rparr>)"
  by (auto simp: call_code_def Let_def)

lemma read_jobs_apply:
  "read_jobs E c w = (Inr (ext_jobs E (trace w @ [c])), w\<lparr>trace := trace w @ [c]\<rparr>)"
  by (simp add: read_jobs_def Let_def)

lemma read_attr_apply:
  "read_attr E c w = (Inr (ext_attr E (trace w @ [c])), w\<lparr>trace := trace w @ [c]\<rparr>)"
  by (simp add: read_attr_def Let_def)

lemma set_retcode_apply: "set_retcode rc w = (Inr (), w\<lparr>retcode := rc\<rparr>)"
  by (simp add: set_retcode_def)

lemma set_cfg_apply: "set_cfg k v w = (Inr (), w\<lparr>cfg := (cfg w)(k \<mapsto> v)\<rparr>)"
  by (simp add: set_cfg_def)

section \<open>What save\_state leaves alone\<close>

lemma save_state_retcode: "retcode (snd (save_state ups w)) = retcode w"
  by (simp add: save_state_def Let_def split: val.splits)

lemma save_state_trace: "trace (snd (save_state ups w)) = trace w"
  by (simp add: save_state_def Let_def split: val.splits)

lemma save_state_testcases: "testcases (snd (save_state ups w)) = testcases w"
  by (simp add: save_state_def Let_def split: val.splits)

lemma save_state_result:
  assumes "save_state ups w = (r, w')"
  shows "cfg w' = merge_items ups (cfg w)" "retcode w' = retcode w" "trace w' = trace w"
    "testcases w' = testcases w"
  using assms save_state_cfg [of ups w] save_state_retcode [of ups w] save_state_trace [of ups w]
    save_state_testcases [of ups w]
  by simp_all

text \<open>Unfolding sets for evaluating the model on concrete inputs.\<close>

lemmas action_defs = bind_def seq_def get_def pyget_def lift_def ret_def raise_def when_act_def
  call_unit_def call_code_def call_val_def read_jobs_def read_attr_def set_retcode_def
  set_cfg_def Let_def

lemmas save_defs = save_state_def has_section_def add_section_def ini_set_def

section \<open>cmd\_run: the baseline check\<close>

lemma save_jobs_frame:
  assumes "save_jobs E jobs idx w = (Inr (), w')"
  shows "retcode w' = retcode w \<and> (\<forall>k. \<not> startswith k ''jobid_'' \<longrightarrow> cfg w' k = cfg w k)
         \<and> (\<exists>ext. trace w' = trace w @ ext)"
  using assms
proof (induction jobs arbitrary: idx w)
  case Nil
  then show ?case by (simp add: ret_apply)
next
  case (Cons job jobs)
  let ?c = "when_act (truthy (pyget (cfg w) ''wait'') \<and> truthy (pyget (cfg w) ''junit''))
              (call_unit E (Runner_dumpjunitresults 0 job (pyget (cfg w) ''junit'')))"
  from Cons.prems obtain wa wb where
    a: "?c w = (Inr (), wa)" and
    b: "save_state [(''jobid_'' @ str_nat idx, job)] wa = (Inr (), wb)" and
    c: "save_jobs E jobs (Suc idx) wb = (Inr (), w')"
    by (auto simp: bind_get seq_Inr_iff)
  from a have wa: "retcode wa = retcode w" "cfg wa = cfg w" "\<exists>ext. trace wa = trace w @ ext"
    by (auto simp: when_act_apply call_unit_Inr_iff split: if_splits)
  from save_state_result [OF b] have wb: "retcode wb = retcode wa" "trace wb = trace wa"
    "cfg wb = merge_items [(''jobid_'' @ str_nat idx, job)] (cfg wa)" by simp_all
  have keep: "cfg wb k = cfg w k" if "\<not> startswith k ''jobid_''" for k
  proof -
    from that have "k \<noteq> ''jobid_'' @ str_nat idx" by (auto simp: startswith_def)
    then show ?thesis by (simp add: wb wa)
  qed
  from Cons.IH [OF c] wa wb keep show ?case by auto
qed

lemma baseline_check_result:
  assumes "baseline_check E w = (Inr (), w')"
  shows "\<exists>rargs pargs baseurl basehost baseres.
           py_iter (pyget (cfg w) ''runner'') = Inr rargs
         \<and> py_iter (pyget (cfg w) ''publisher'') = Inr pargs
         \<and> trace w' = trace w @ baseline_calls E w rargs pargs baseurl basehost
         \<and> ext_val E (trace w @ take 3 (baseline_calls E w rargs pargs baseurl basehost)) = Inr baseurl
         \<and> ext_val E (trace w @ take 4 (baseline_calls E w rargs pargs baseurl basehost)) = Inr basehost
         \<and> ext_code E (trace w') = Inr baseres
         \<and> retcode w' = (if baseres \<noteq> 0 then 0 else retcode w)
         \<and> cfg w' = (cfg w)(''baseretcode'' \<mapsto> VInt baseres)"
proof -
  from assms obtain rargs w1 pargs w2 baseurl w3 basehost w4 baseres w5 w6 where
    r: "py_iter (pyget (cfg w) ''runner'') = Inr rargs" and
    c1: "call_unit E (Getrunner 1 rargs) w = (Inr (), w1)" and
    p: "py_iter (pyget (cfg w1) ''publisher'') = Inr pargs" and
    c2: "call_unit E (Getpublisher pargs) w1 = (Inr (), w2)" and
    c3: "call_val E (Publisher_geturl (pystr E (pyget (cfg w2) ''basehead'') @ ''.tar.gz'')) w2
           = (Inr baseurl, w3)" and
    c4: "call_val E (Runner_get_mfhost 0) w3 = (Inr basehost, w4)" and
    c5: "call_code E (Runner_run 1 baseurl (pyget (cfg w4) ''krelease'') (pyget (cfg w4) ''wait'')
           (Some (VStr ''baseline check'')) None (Some basehost) (Some False)) w4 = (Inr baseres, w5)" and
    s: "save_state [(''baseretcode'', VInt baseres)] w5 = (Inr (), w6)" and
    f: "when_act (baseres \<noteq> 0) (set_retcode 0) w6 = (Inr (), w')"
    unfolding baseline_check_def
    by (auto simp: bind_get bind_Inr_iff seq_Inr_iff lift_apply)
  from c1 have w1: "w1 = w\<lparr>trace := trace w @ [Getrunner 1 rargs]\<rparr>"
    by (simp add: call_unit_Inr_iff)
  from c2 have w2: "w2 = w1\<lparr>trace := trace w1 @ [Getpublisher pargs]\<rparr>"
    by (simp add: call_unit_Inr_iff)
  from c3 have w3: "w3 = w2\<lparr>trace := trace w2 @
      [Publisher_geturl (pystr E (pyget (cfg w2) ''basehead'') @ ''.tar.gz'')]\<rparr>"
    and u: "ext_val E (trace w2 @
      [Publisher_geturl (pystr E (pyget (cfg w2) ''basehead'') @ ''.tar.gz'')]) = Inr baseurl"
    by (simp_all add: call_val_iff)
  from c4 have w4: "w4 = w3\<lparr>trace := trace w3 @ [Runner_get_mfhost 0]\<rparr>"
    and h: "ext_val E (trace w3 @ [Runner_get_mfhost 0]) = Inr basehost"
    by (simp_all add: call_val_iff)
  from c5 have w5: "w5 = w4\<lparr>trace := trace w4 @
      [Runner_run 1 baseurl (pyget (cfg w4) ''krelease'') (pyget (cfg w4) ''wait'')
           (Some (VStr ''baseline check'')) None (Some basehost) (Some False)]\<rparr>"
    and b: "ext_code E (trace w4 @
      [Runner_run 1 baseurl (pyget (cfg w4) ''krelease'') (pyget (cfg w4) ''wait'')
           (Some (VStr ''baseline check'')) None (Some basehost) (Some False)]) = Inr baseres"
    by (simp_all add: call_code_iff)
  from save_state_result [OF s] have w6: "cfg w6 = (cfg w5)(''baseretcode'' \<mapsto> VInt baseres)"
    "retcode w6 = retcode w5" "trace w6 = trace w5" by simp_all
  from f have w': "cfg w' = cfg w6" "trace w' = trace w6"
    "retcode w' = (if baseres \<noteq> 0 then 0 else retcode w6)"
    by (auto simp: when_act_apply set_retcode_apply split: if_splits)
  have tr: "trace w' = trace w @ baseline_calls E w rargs pargs baseurl basehost"
    by (simp add: w' w6 w5 w4 w3 w2 w1 baseline_calls_def)
  have "ext_code E (trace w') = Inr baseres"
    using b by (simp add: w' w6 w5)
  moreover have "ext_val E (trace w @ take 3 (baseline_calls E w rargs pargs baseurl basehost)) = Inr baseurl"
    using u by (simp add: w2 w1 baseline_calls_def)
  moreover have "ext_val E (trace w @ take 4 (baseline_calls E w rargs pargs baseurl basehost)) = Inr basehost"
    using h by (simp add: w3 w2 w1 baseline_calls_def)
  moreover have "retcode w' = (if baseres \<noteq> 0 then 0 else retcode w)"
    by (simp add: w' w6 w5 w4 w3 w2 w1)
  moreover have "cfg w' = (cfg w)(''baseretcode'' \<mapsto> VInt baseres)"
    by (simp add: w' w6 w5 w4 w3 w2 w1)
  moreover have "py_iter (pyget (cfg w) ''publisher'') = Inr pargs"
    using p by (simp add: w1)
  ultimately show ?thesis using r tr by blast
qed

lemma cmd_run_func_steps:
  assumes test: "pyget (cfg w) ''test'' = VNone"
    and run: "cmd_run_func E w = (Inr (), w')"
  shows "\<exists>rargs rc wb wc.
           py_iter (pyget (cfg w) ''runner'') = Inr rargs
         \<and> ext_code E (trace w @ [Getrunner 0 rargs, primary_run w]) = Inr rc
         \<and> retcode wb = rc
         \<and> (\<exists>ext. trace wb = trace w @ [Getrunner 0 rargs, primary_run w] @ ext)
         \<and> (\<forall>k. \<not> startswith k ''jobid_'' \<and> k \<noteq> ''jobs'' \<longrightarrow> cfg wb k = cfg w k)
         \<and> (if baseline_wanted wb then baseline_check E wb else ret () wb) = (Inr (), wc)
         \<and> save_retcode wc = (Inr (), w')"
proof -
  define after_jobs where "after_jobs = (\<lambda>w4::world. w4\<lparr>trace := trace w4 @ [Runner_jobs 0],
      cfg := (cfg w4)(''jobs'' \<mapsto> VList (ext_jobs E (trace w4 @ [Runner_jobs 0])))\<rparr>)"
  from run test obtain rargs w1 rc w2 w3 w4 wc where
    r: "py_iter (pyget (cfg w) ''runner'') = Inr rargs" and
    c1: "call_unit E (Getrunner 0 rargs) w = (Inr (), w1)" and
    c2: "call_code E (Runner_run 0 (pyget (cfg w1) ''buildurl'') (pyget (cfg w1) ''krelease'')
            (pyget (cfg w1) ''wait'') (Some (pyget (cfg w1) ''uid''))
            (Some (pyget (cfg w1) ''kernel_arch'')) None None) w1 = (Inr rc, w2)" and
    s: "set_retcode rc w2 = (Inr (), w3)" and
    j: "save_jobs E (ext_jobs E (trace w3 @ [Runner_jobs 0])) 0
          (w3\<lparr>trace := trace w3 @ [Runner_jobs 0]\<rparr>) = (Inr (), w4)" and
    b: "(if baseline_wanted (after_jobs w4) then baseline_check E (after_jobs w4)
         else ret () (after_jobs w4)) = (Inr (), wc)" and
    f: "save_retcode wc = (Inr (), w')"
    unfolding cmd_run_func_def after_jobs_def
    by (auto simp: bind_get bind_Inr_iff seq_Inr_iff lift_apply read_jobs_apply set_cfg_apply
        cong: if_cong)
  define w6 where "w6 = after_jobs w4"
  have w6: "trace w6 = trace w4 @ [Runner_jobs 0]" "retcode w6 = retcode w4"
    "\<forall>k. k \<noteq> ''jobs'' \<longrightarrow> cfg w6 k = cfg w4 k"
    by (simp_all add: w6_def after_jobs_def)
  note b = b [folded w6_def]
  from c1 have w1: "w1 = w\<lparr>trace := trace w @ [Getrunner 0 rargs]\<rparr>"
    by (simp add: call_unit_Inr_iff)
  from c2 have w2: "w2 = w1\<lparr>trace := trace w1 @ [primary_run w]\<rparr>"
    and rc: "ext_code E (trace w1 @ [primary_run w]) = Inr rc"
    by (simp_all add: call_code_iff primary_run_def w1)
  from s have w3: "w3 = w2\<lparr>retcode := rc\<rparr>" by (simp add: set_retcode_apply)
  from save_jobs_frame [OF j] obtain ext where
    w4: "retcode w4 = rc" "\<forall>k. \<not> startswith k ''jobid_'' \<longrightarrow> cfg w4 k = cfg w k"
      "trace w4 = trace w @ [Getrunner 0 rargs, primary_run w] @ [Runner_jobs 0] @ ext"
    by (auto simp: w3 w2 w1)
  have "retcode w6 = rc" by (simp add: w6 w4)
  moreover have "trace w6 = trace w @ [Getrunner 0 rargs, primary_run w]
                    @ ([Runner_jobs 0] @ ext @ [Runner_jobs 0])"
    by (simp add: w6 w4)
  moreover have "\<forall>k. \<not> startswith k ''jobid_'' \<and> k \<noteq> ''jobs'' \<longrightarrow> cfg w6 k = cfg w k"
    by (simp add: w6 w4)
  moreover have "ext_code E (trace w @ [Getrunner 0 rargs, primary_run w]) = Inr rc"
    using rc by (simp add: w1)
  ultimately show ?thesis using r b f by blast
qed

text \<open>
  Claim C1.  In a run stage that is not stubbed: when the primary run returns a
  non-zero code, a base head is recorded and differs from the build head, and a
  publisher is configured, then (the stage returning normally) a second runner is
  made and run on the URL the publisher derives from \<open>basehead.tar.gz\<close>, on the host
  the primary runner reports, with \<open>reschedule=False\<close>; the global result code ends as
  0 when that baseline run returns non-zero and as the primary code when it returns 0,
  and is saved under \<open>retcode\<close>.
\<close>

theorem baseline_fallback:
  assumes test: "pyget (cfg w) ''test'' = VNone"
    and run: "cmd_run_func E w = (Inr (), w')"
    and rargs: "py_iter (pyget (cfg w) ''runner'') = Inr rargs"
    and rc: "ext_code E (trace w @ [Getrunner 0 rargs, primary_run w]) = Inr rc"
    and nz: "rc \<noteq> 0"
    and bh: "truthy (pyget (cfg w) ''basehead'')"
    and pub: "truthy (pyget (cfg w) ''publisher'')"
    and diff: "\<not> py_eq (pyget (cfg w) ''basehead'') (pyget (cfg w) ''buildhead'')"
  shows "\<exists>h pargs baseurl basehost baseres.
           (\<exists>ext. h = trace w @ [Getrunner 0 rargs, primary_run w] @ ext)
         \<and> trace w' = h @ baseline_calls E w rargs pargs baseurl basehost
         \<and> ext_val E (h @ take 3 (baseline_calls E w rargs pargs baseurl basehost)) = Inr baseurl
         \<and> ext_val E (h @ take 4 (baseline_calls E w rargs pargs baseurl basehost)) = Inr basehost
         \<and> ext_code E (trace w') = Inr baseres
         \<and> retcode w' = (if baseres \<noteq> 0 then 0 else rc)
         \<and> cfg w' ''baseretcode'' = Some (VInt baseres)
         \<and> cfg w' ''retcode'' = Some (VInt (retcode w'))"
proof -
  from cmd_run_func_steps [OF test run] rargs rc obtain wb wc ext where
    rb: "retcode wb = rc" and
    tb: "trace wb = trace w @ [Getrunner 0 rargs, primary_run w] @ ext" and
    cb: "\<forall>k. \<not> startswith k ''jobid_'' \<and> k \<noteq> ''jobs'' \<longrightarrow> cfg wb k = cfg w k" and
    b: "(if baseline_wanted wb then baseline_check E wb else ret () wb) = (Inr (), wc)" and
    f: "save_retcode wc = (Inr (), w')"
    by auto
  have keys: "pyget (cfg wb) ''basehead'' = pyget (cfg w) ''basehead''"
    "pyget (cfg wb) ''publisher'' = pyget (cfg w) ''publisher''"
    "pyget (cfg wb) ''buildhead'' = pyget (cfg w) ''buildhead''"
    "pyget (cfg wb) ''krelease'' = pyget (cfg w) ''krelease''"
    "pyget (cfg wb) ''wait'' = pyget (cfg w) ''wait''"
    "pyget (cfg wb) ''runner'' = pyget (cfg w) ''runner''"
    using cb by (simp_all add: pyget_def startswith_def)
  have "baseline_wanted wb"
    using nz bh pub diff by (simp add: baseline_wanted_def rb keys)
  with b have "baseline_check E wb = (Inr (), wc)" by simp
  from baseline_check_result [OF this] rargs obtain pargs baseurl basehost baseres where
    tc: "trace wc = trace wb @ baseline_calls E wb rargs pargs baseurl basehost" and
    u: "ext_val E (trace wb @ take 3 (baseline_calls E wb rargs pargs baseurl basehost)) = Inr baseurl" and
    h: "ext_val E (trace wb @ take 4 (baseline_calls E wb rargs pargs baseurl basehost)) = Inr basehost" and
    br: "ext_code E (trace wc) = Inr baseres" and
    rcc: "retcode wc = (if baseres \<noteq> 0 then 0 else retcode wb)" and
    cc: "cfg wc = (cfg wb)(''baseretcode'' \<mapsto> VInt baseres)"
    by (auto simp: keys)
  have calls: "baseline_calls E wb rargs pargs baseurl basehost
               = baseline_calls E w rargs pargs baseurl basehost"
    by (simp add: baseline_calls_def keys)
  from f have "save_state [(''retcode'', VInt (retcode wc))] wc = (Inr (), w')"
    by (simp add: save_retcode_def)
  from save_state_result [OF this] have w': "cfg w' = (cfg wc)(''retcode'' \<mapsto> VInt (retcode wc))"
    "retcode w' = retcode wc" "trace w' = trace wc" by simp_all
  have "trace w' = trace wb @ baseline_calls E w rargs pargs baseurl basehost"
    by (simp add: w' tc calls)
  moreover have "ext_code E (trace w') = Inr baseres" by (simp add: w' br)
  moreover have "retcode w' = (if baseres \<noteq> 0 then 0 else rc)" by (simp add: w' rcc rb)
  moreover have "cfg w' ''baseretcode'' = Some (VInt baseres)" by (simp add: w' cc)
  moreover have "cfg w' ''retcode'' = Some (VInt (retcode w'))" by (simp add: w')
  ultimately show ?thesis using tb u h calls by metis
qed

lemmas run_defs = cmd_run_func_def baseline_wanted_def baseline_check_def save_retcode_def
  py_iter_def py_eq_def num_of_def pystr_def str_nat.simps digit_char_def

theorem baseline_fallback_witness:
  "pyget (cfg w_run) ''test'' = VNone
   \<and> fst (cmd_run_func E_run w_run) = Inr ()
   \<and> ext_code E_run (trace w_run @ [Getrunner 0 [VStr ''beaker'', VDict []], primary_run w_run]) = Inr 3
   \<and> retcode (snd (cmd_run_func E_run w_run)) = 0
   \<and> cfg (snd (cmd_run_func E_run w_run)) ''retcode'' = Some (VInt 0)
   \<and> cfg (snd (cmd_run_func E_run w_run)) ''baseretcode'' = Some (VInt 1)
   \<and> last (trace (snd (cmd_run_func E_run w_run))) =
        Runner_run 1 (VStr ''http://x/b0.tar.gz'') VNone (VBool True)
          (Some (VStr ''baseline check'')) None (Some (VStr ''host1'')) (Some False)"
proof -
  let ?w = "snd (cmd_run_func E_run w_run)"
  have t: "pyget (cfg w_run) ''test'' = VNone" by (simp add: w_run_def pyget_def)
  have r: "fst (cmd_run_func E_run w_run) = Inr ()"
    by (simp add: run_defs action_defs save_defs E_run_def w_run_def)
  then have run: "cmd_run_func E_run w_run = (Inr (), ?w)" by (metis prod.collapse)
  have ra: "py_iter (pyget (cfg w_run) ''runner'') = Inr [VStr ''beaker'', VDict []]"
    by (simp add: w_run_def pyget_def py_iter_def)
  have rc: "ext_code E_run (trace w_run @ [Getrunner 0 [VStr ''beaker'', VDict []], primary_run w_run]) = Inr 3"
    by (simp add: E_run_def primary_run_def)
  have bh: "truthy (pyget (cfg w_run) ''basehead'')" and pb: "truthy (pyget (cfg w_run) ''publisher'')"
    and df: "\<not> py_eq (pyget (cfg w_run) ''basehead'') (pyget (cfg w_run) ''buildhead'')"
    by (simp_all add: w_run_def pyget_def py_eq_def num_of_def)
  have nz: "(3::int) \<noteq> 0" by simp
  from baseline_fallback [OF t run ra rc nz bh pb df] obtain h pargs baseurl basehost baseres where
    tr: "trace ?w = h @ baseline_calls E_run w_run [VStr ''beaker'', VDict []] pargs baseurl basehost"
    and u: "ext_val E_run (h @ take 3 (baseline_calls E_run w_run [VStr ''beaker'', VDict []] pargs baseurl basehost)) = Inr baseurl"
    and ho: "ext_val E_run (h @ take 4 (baseline_calls E_run w_run [VStr ''beaker'', VDict []] pargs baseurl basehost)) = Inr basehost"
    and br: "ext_code E_run (trace ?w) = Inr baseres"
    and re: "retcode ?w = (if baseres \<noteq> 0 then 0 else 3)"
    and c1: "cfg ?w ''baseretcode'' = Some (VInt baseres)"
    and c2: "cfg ?w ''retcode'' = Some (VInt (retcode ?w))"
    by blast
  from u have bu: "baseurl = VStr ''http://x/b0.tar.gz''"
    by (simp add: baseline_calls_def E_run_def w_run_def pyget_def pystr_def)
  from ho have bo: "basehost = VStr ''host1''"
    by (simp add: baseline_calls_def E_run_def)
  from br [unfolded tr] have b1: "baseres = 1"
    by (simp add: baseline_calls_def E_run_def)
  have la: "last (trace ?w) = Runner_run 1 (VStr ''http://x/b0.tar.gz'') VNone (VBool True)
          (Some (VStr ''baseline check'')) None (Some (VStr ''host1'')) (Some False)"
  proof -
    have kr: "pyget (cfg w_run) ''krelease'' = VNone" "pyget (cfg w_run) ''wait'' = VBool True"
      by (simp_all add: w_run_def pyget_def)
    have "last (trace ?w) = Runner_run 1 baseurl (pyget (cfg w_run) ''krelease'')
        (pyget (cfg w_run) ''wait'') (Some (VStr ''baseline check'')) None (Some basehost) (Some False)"
      unfolding tr by (simp add: baseline_calls_def)
    then show ?thesis by (simp only: kr bu bo)
  qed
  from t r rc re c1 c2 la b1 show ?thesis by simp
qed

end
